theory Spec2Isabelle
  imports Main "HOL-Library.Sublist" "HOL-Library.List_Lexorder" "HOL-Library.AList"
begin

section \<open>Python values\<close>

text \<open>
  A Python string is a sequence of Unicode code points, and \<open>len\<close> and slicing count
  code points.  A string is therefore modelled as a list of code points (natural
  numbers); \<open>lit\<close> turns an ASCII literal of the source into such a list.
\<close>

type_synonym pystr = "nat list"

definition lit :: "string \<Rightarrow> pystr" where
  "lit s = map of_char s"

definition nl :: nat where
  "nl = 10"

text \<open>
  The values a decoded JSON document holds.  JSON numbers with a fraction (Python
  floats) are left out of the model.  A nested dictionary keeps its entries in
  insertion order, as Python does; its keys are distinct.
\<close>

datatype pyval =
    PNone
  | PBool bool
  | PInt int
  | PStr pystr
  | PList "pyval list"
  | PDict "(pystr \<times> pyval) list"

text \<open>Truth value testing, as \<open>if v:\<close> and \<open>v or w\<close> do it.\<close>

fun truthy :: "pyval \<Rightarrow> bool" where
  "truthy PNone = False"
| "truthy (PBool b) = b"
| "truthy (PInt i) = (i \<noteq> 0)"
| "truthy (PStr s) = (s \<noteq> [])"
| "truthy (PList xs) = (xs \<noteq> [])"
| "truthy (PDict kvs) = (kvs \<noteq> [])"

text \<open>\<open>v1 or v2 or ... or vn\<close>: the first truthy operand, else the last operand.\<close>

fun py_or_chain :: "pyval list \<Rightarrow> pyval" where
  "py_or_chain [] = PNone"
| "py_or_chain [v] = v"
| "py_or_chain (v # w # vs) = (if truthy v then v else py_or_chain (w # vs))"

text \<open>\<open>sep.join(xs)\<close>.\<close>

fun py_join :: "pystr \<Rightarrow> pystr list \<Rightarrow> pystr" where
  "py_join sep [] = []"
| "py_join sep [x] = x"
| "py_join sep (x # y # xs) = x @ sep @ py_join sep (y # xs)"

subsection \<open>\<open>str\<close> and \<open>repr\<close>\<close>

fun str_nat :: "nat \<Rightarrow> pystr" where
  "str_nat n = (if n < 10 then [48 + n] else str_nat (n div 10) @ [48 + n mod 10])"

declare str_nat.simps [simp del]

definition str_int :: "int \<Rightarrow> pystr" where
  "str_int i = (if i < 0 then 45 # str_nat (nat (- i)) else str_nat (nat i))"

definition hexdigit :: "nat \<Rightarrow> nat" where
  "hexdigit d = (if d < 10 then 48 + d else 87 + d)"

text \<open>
  \<open>repr\<close> of a string: single quotes, unless the string holds a single quote and no
  double quote; the quote and the backslash are escaped, tab, newline and carriage
  return are written \<open>\t\<close>, \<open>\n\<close>, \<open>\r\<close>, the non-printable code points below 256 as
  \<open>\xhh\<close> and the surrogates as \<open>\udhhh\<close>.  The other code points from 256 on are copied
  (CPython escapes the non-printable ones among them, which needs the Unicode database).
\<close>

definition repr_quote :: "pystr \<Rightarrow> nat" where
  "repr_quote s = (if 39 \<in> set s \<and> 34 \<notin> set s then 34 else 39)"

definition repr_char :: "nat \<Rightarrow> nat \<Rightarrow> pystr" where
  "repr_char q c =
     (if c = q \<or> c = 92 then [92, c]
      else if c = 9 then [92, 116]
      else if c = 10 then [92, 110]
      else if c = 13 then [92, 114]
      else if c < 32 \<or> (127 \<le> c \<and> c \<le> 160) \<or> c = 173
        then [92, 120, hexdigit (c div 16), hexdigit (c mod 16)]
      else if 55296 \<le> c \<and> c \<le> 57343
        then [92, 117, hexdigit (c div 4096), hexdigit (c div 256 mod 16),
              hexdigit (c div 16 mod 16), hexdigit (c mod 16)]
      else [c])"

definition repr_str :: "pystr \<Rightarrow> pystr" where
  "repr_str s = (let q = repr_quote s in [q] @ concat (map (repr_char q) s) @ [q])"

fun py_repr :: "pyval \<Rightarrow> pystr" where
  "py_repr PNone = lit ''None''"
| "py_repr (PBool b) = (if b then lit ''True'' else lit ''False'')"
| "py_repr (PInt i) = str_int i"
| "py_repr (PStr s) = repr_str s"
| "py_repr (PList xs) = lit ''['' @ py_join (lit '', '') (map py_repr xs) @ lit '']''"
| "py_repr (PDict kvs) =
     lit ''{'' @ py_join (lit '', '') (map (\<lambda>(k, v). repr_str k @ lit '': '' @ py_repr v) kvs)
       @ lit ''}''"

text \<open>\<open>str(v)\<close>, which is also what an f-string field \<open>{v}\<close> renders.\<close>

definition py_str :: "pyval \<Rightarrow> pystr" where
  "py_str v = (case v of PStr s \<Rightarrow> s | _ \<Rightarrow> py_repr v)"

subsection \<open>Exceptions\<close>

text \<open>
  The exceptions the interpreter raises in the modelled code.  The source needs
  Python 3.12 (its f-string nests a string literal with a backslash), where a slice is
  hashable, so that slicing a dictionary is a failed lookup: \<open>KeyError\<close>.
\<close>

datatype py_exception =
    TypeError
  | AttributeError
  | KeyError
  | IndexError
  | UnicodeEncodeError

subsection \<open>Standard output\<close>

text \<open>
  Standard output is taken to be a UTF-8 text stream, the encoding that the check mark
  and the cross of the source's own log lines need.  \<open>print\<close> then raises
  \<open>UnicodeEncodeError\<close> exactly when the text holds a surrogate that the stream's error
  handler does not accept: none with the handler \<open>strict\<close>, the range \<open>U+DC80\<close> to
  \<open>U+DCFF\<close> with \<open>surrogateescape\<close>.  Which handler is in force is an input of the
  model.
\<close>

definition can_print :: "bool \<Rightarrow> pystr \<Rightarrow> bool" where
  "can_print surrogateescape s \<longleftrightarrow>
     (\<forall>c\<in>set s. 55296 \<le> c \<and> c \<le> 57343 \<longrightarrow> surrogateescape \<and> 56448 \<le> c \<and> c \<le> 56575)"

text \<open>\<open>v[:n]\<close>.\<close>

fun py_slice :: "nat \<Rightarrow> pyval \<Rightarrow> py_exception + pyval" where
  "py_slice n (PStr s) = Inr (PStr (take n s))"
| "py_slice n (PList xs) = Inr (PList (take n xs))"
| "py_slice n (PDict kvs) = Inl KeyError"
| "py_slice n PNone = Inl TypeError"
| "py_slice n (PBool b) = Inl TypeError"
| "py_slice n (PInt i) = Inl TypeError"

section \<open>Context Builder: \<open>create_context\<close>\<close>

text \<open>
  A record of the data store: its identifier and, when the key \<open>fields\<close> is present,
  the dictionary from field names to values, as the list of its entries (with distinct
  names).
\<close>

record airtable_record =
  rec_id :: pystr
  rec_fields :: "(pystr \<times> pyval) list option"

text \<open>\<open>record.get("fields", {})\<close>.\<close>

definition get_fields :: "airtable_record \<Rightarrow> (pystr \<times> pyval) list" where
  "get_fields r = (case rec_fields r of None \<Rightarrow> [] | Some f \<Rightarrow> f)"

text \<open>\<open>fields.get(k)\<close>: the value, or \<open>None\<close> when the key is absent.\<close>

definition dict_get :: "(pystr \<times> pyval) list \<Rightarrow> string \<Rightarrow> pyval" where
  "dict_get d k = (case map_of d (lit k) of None \<Rightarrow> PNone | Some v \<Rightarrow> v)"

definition company_aliases :: "string list" where
  "company_aliases = [''company_name'', ''Company Name'', ''Company'', ''name'']"

definition status_aliases :: "string list" where
  "status_aliases = [''status'', ''Status'', ''Current status'', ''Current Status'']"

definition notes_aliases :: "string list" where
  "notes_aliases = [''notes'', ''Notes'', ''call notes'', ''Call Notes'', ''Call notes'']"

definition date_aliases :: "string list" where
  "date_aliases = [''date'', ''Date'', ''Last Contact'', ''last_contact'']"

definition summary_aliases :: "string list" where
  "summary_aliases = [''pitch_deck_summary'', ''Pitch Deck Summary'', ''summary'',
     ''Summary'', ''deck_summary'', ''Deck Summary'']"

text \<open>
  \<open>fields.get(a1) or fields.get(a2) or ... or default\<close>, for the aliases of one slot.
\<close>

definition resolve :: "(pystr \<times> pyval) list \<Rightarrow> string list \<Rightarrow> string \<Rightarrow> pyval" where
  "resolve fs aliases dflt = py_or_chain (map (dict_get fs) aliases @ [PStr (lit dflt)])"

text \<open>\<open>if v: context.append(f"label{v}")\<close>: the lines this statement appends.\<close>

definition plain_line :: "string \<Rightarrow> pyval \<Rightarrow> pystr list" where
  "plain_line label v = (if truthy v then [lit label @ py_str v] else [])"

text \<open>\<open>if v: context.append(f"label{v[:500]}")\<close>; the slice can raise.\<close>

definition sliced_line :: "string \<Rightarrow> pyval \<Rightarrow> py_exception + pystr list" where
  "sliced_line label v =
     (if truthy v
      then (case py_slice 500 v of Inl e \<Rightarrow> Inl e | Inr w \<Rightarrow> Inr [lit label @ py_str w])
      else Inr [])"

text \<open>
  The body of the second loop of \<open>create_context\<close> for one record: the lines it appends
  to \<open>context\<close>, or the exception it raises.
\<close>

definition record_lines :: "airtable_record \<Rightarrow> py_exception + pystr list" where
  "record_lines r =
     (let fs = get_fields r;
          company = resolve fs company_aliases ''Unknown'';
          status = resolve fs status_aliases '''';
          notes = resolve fs notes_aliases '''';
          date = resolve fs date_aliases '''';
          summary = resolve fs summary_aliases '''';
          l1 = [nl # lit ''Company: '' @ py_str company];
          l2 = plain_line ''Status: '' status;
          l3 = plain_line ''Date: '' date
      in case sliced_line ''Notes: '' notes of
           Inl e \<Rightarrow> Inl e
         | Inr l4 \<Rightarrow>
             (case sliced_line ''Deck Summary: '' summary of
                Inl e \<Rightarrow> Inl e
              | Inr l5 \<Rightarrow> Inr (l1 @ l2 @ l3 @ l4 @ l5)))"

fun context_loop :: "airtable_record list \<Rightarrow> pystr list \<Rightarrow> py_exception + pystr list" where
  "context_loop [] context = Inr context"
| "context_loop (r # records) context =
     (case record_lines r of
        Inl e \<Rightarrow> Inl e
      | Inr ls \<Rightarrow> context_loop records (context @ ls))"

definition header :: pystr where
  "header = lit ''=== VC DATABASE ==='' @ [nl]"

text \<open>The first loop of \<open>create_context\<close>: \<open>all_fields.update(fields.keys())\<close>.\<close>

fun all_fields_loop :: "airtable_record list \<Rightarrow> pystr set \<Rightarrow> pystr set" where
  "all_fields_loop [] all_fields = all_fields"
| "all_fields_loop (r # records) all_fields =
     all_fields_loop records (all_fields \<union> set (map fst (get_fields r)))"

text \<open>
  \<open>f"Available fields in Airtable: {sorted(all_fields)}"\<close>.  Python compares strings
  code point by code point, which is the lexicographic order of the lists.
\<close>

definition fields_line :: "pystr set \<Rightarrow> pystr" where
  "fields_line all_fields =
     lit ''Available fields in Airtable: ''
       @ py_str (PList (map PStr (sorted_list_of_set all_fields)))"

text \<open>
  \<open>create_context\<close> returns its result, the context or the exception raised, and the
  lines it has printed.  The one line it prints is \<open>repr\<close> text without surrogates, so
  that \<open>print\<close> succeeds.
\<close>

definition create_context :: "airtable_record list \<Rightarrow> (py_exception + pystr) \<times> pystr list" where
  "create_context records =
     (let all_fields = all_fields_loop records {};
          printed = [fields_line all_fields]
      in case context_loop records [header] of
           Inl e \<Rightarrow> (Inl e, printed)
         | Inr context \<Rightarrow> (Inr (py_join [nl] context), printed))"

section \<open>The world outside\<close>

text \<open>
  What the remote services and the process environment answer is an input of the model.
  \<open>response.json()\<close> either raises or yields the decoded document.  An exception raised
  by a library carries the class the \<open>except\<close> clauses of \<open>ask_claude\<close> dispatch on
  (\<open>requests.Timeout\<close>, any other \<open>requests.RequestException\<close>, any other
  \<open>Exception\<close>) and its message \<open>str(e)\<close>.
\<close>

datatype exn_class = TimeoutExc | RequestExc | OtherExc

datatype json_result = JsonRaises exn_class pystr | Json pyval

text \<open>
  The answer to the data store's \<open>GET\<close>: the request raises, or a response arrives with
  its status code and body.  The body of a response: decoding it (or \<open>.get\<close> on the
  decoded value) raises, or it is a dictionary whose key \<open>records\<close>, when present, holds
  the records.
\<close>

datatype fetch_body = BodyRaises | Body "airtable_record list option"

datatype fetch_reply = FetchRaises | FetchResponse int fetch_body

text \<open>The keyless provider's library call: it raises, or yields result objects.\<close>

datatype ddg_reply = DdgRaises | DdgResults "pyval list"

text \<open>The answer to a keyed provider's \<open>GET\<close>.\<close>

datatype search_reply = GetRaises | GetResponse int json_result

text \<open>
  The answer to the model's \<open>POST\<close>: the request raises, or a response arrives with its
  status code, its text and its decoded body.
\<close>

datatype claude_reply = PostRaises exn_class pystr | PostResponse int pystr json_result

record world =
  airtable_get :: "pystr \<Rightarrow> fetch_reply"
  clock :: nat
  ddgs_installed :: bool
  ddgs_text :: "pystr \<Rightarrow> nat \<Rightarrow> ddg_reply"
  getenv :: "string \<Rightarrow> pystr option"
  brave_get :: "pystr \<Rightarrow> pystr \<Rightarrow> search_reply"
  serpapi_get :: "pystr \<Rightarrow> pystr \<Rightarrow> search_reply"
  claude_post :: "pystr \<Rightarrow> pystr \<Rightarrow> pystr \<Rightarrow> claude_reply"
  error_text :: "py_exception \<Rightarrow> pyval \<Rightarrow> pystr"
  stdout_surrogateescape :: bool

text \<open>
  \<open>airtable_get url\<close> answers the fetch of a table; \<open>clock\<close> is \<open>datetime.now()\<close>;
  \<open>ddgs_installed\<close> tells whether the import of the keyless provider's library succeeds
  and \<open>ddgs_text query max_results\<close> is its answer; \<open>getenv\<close> reads the process
  environment; \<open>brave_get query token\<close> and \<open>serpapi_get query api_key\<close> answer the keyed
  providers' requests; \<open>claude_post api_key system message\<close> answers the model call;
  \<open>error_text e v\<close> is \<open>str(e)\<close> for the exception \<open>e\<close> the interpreter raises on the
  value \<open>v\<close>; \<open>stdout_surrogateescape\<close> tells whether standard output has the error
  handler \<open>surrogateescape\<close>.

  Of the log lines the source prints, the model keeps the one of \<open>create_context\<close>, as
  its output, and the one at the start of \<open>web_search\<close>, which raises on a query that
  cannot be printed.  The others print ASCII text, the check mark, the cross, or the
  message of a caught exception, taken to be printable.
\<close>

section \<open>Session state, Record Fetcher and sync\<close>

record vc_database =
  airtable_base_url :: pystr
  claude_api_key :: "pystr option"
  database_context :: pystr
  last_sync :: "nat option"

definition fetch_table :: "world \<Rightarrow> vc_database \<Rightarrow> string \<Rightarrow> airtable_record list" where
  "fetch_table w self table_name =
     (case airtable_get w (airtable_base_url self @ lit ''/'' @ lit table_name) of
        FetchRaises \<Rightarrow> []
      | FetchResponse status_code body \<Rightarrow>
          if status_code = 200
          then (case body of
                  BodyRaises \<Rightarrow> []
                | Body None \<Rightarrow> []
                | Body (Some records) \<Rightarrow> records)
          else [])"

definition possible_names :: "string list" where
  "possible_names = [''List of Cos'', ''companies_full_history_safe'', ''Companies'',
     ''Imported table'', ''Portfolio Companies'']"

fun find_table_loop :: "world \<Rightarrow> vc_database \<Rightarrow> string list \<Rightarrow> airtable_record list" where
  "find_table_loop w self [] = []"
| "find_table_loop w self (name # names) =
     (let data = fetch_table w self name
      in if data \<noteq> [] then data else find_table_loop w self names)"

definition find_table :: "world \<Rightarrow> vc_database \<Rightarrow> airtable_record list" where
  "find_table w self = find_table_loop w self possible_names"

text \<open>
  \<open>sync_database\<close> returns the session state it leaves behind and its report.  An
  exception of \<open>create_context\<close> is caught by the \<open>except\<close> clause, before any
  assignment to the state.
\<close>

definition sync_database :: "world \<Rightarrow> vc_database \<Rightarrow> vc_database \<times> bool" where
  "sync_database w self =
     (let records = find_table w self
      in if records = [] then (self, False)
         else (case fst (create_context records) of
                 Inl e \<Rightarrow> (self, False)
               | Inr context \<Rightarrow>
                   (self\<lparr>database_context := context, last_sync := Some (clock w)\<rparr>, True)))"

section \<open>Search providers and the Search Aggregator\<close>

text \<open>\<open>r.get(key, default)\<close> on a decoded value: only a dictionary has \<open>get\<close>.\<close>

fun py_get :: "pyval \<Rightarrow> string \<Rightarrow> pyval \<Rightarrow> py_exception + pyval" where
  "py_get (PDict kvs) key dflt =
     Inr (case map_of kvs (lit key) of None \<Rightarrow> dflt | Some v \<Rightarrow> v)"
| "py_get v key dflt = Inl AttributeError"

text \<open>\<open>for r in v\<close>: the items the loop visits.\<close>

fun py_iter :: "pyval \<Rightarrow> py_exception + pyval list" where
  "py_iter (PList xs) = Inr xs"
| "py_iter (PStr s) = Inr (map (\<lambda>c. PStr [c]) s)"
| "py_iter (PDict kvs) = Inr (map (\<lambda>kv. PStr (fst kv)) kvs)"
| "py_iter v = Inl TypeError"

text \<open>The bullet \<open>U+2022\<close> that starts every rendered entry.\<close>

definition bullet :: nat where
  "bullet = 8226"

text \<open>\<open>f"(bullet) {title}\n  {snippet}\n  Source: {link}"\<close>.\<close>

definition render_entry :: "pyval \<Rightarrow> pyval \<Rightarrow> pyval \<Rightarrow> pystr" where
  "render_entry title snippet link =
     [bullet] @ lit '' '' @ py_str title @ [nl] @ lit ''  '' @ py_str snippet @ [nl]
       @ lit ''  Source: '' @ py_str link"

text \<open>
  The body of a provider's loop for one result object \<open>r\<close>, with the provider's names
  for the snippet and the link.
\<close>

definition format_result :: "string \<Rightarrow> string \<Rightarrow> pyval \<Rightarrow> py_exception + pystr" where
  "format_result snippet_key link_key r =
     (case py_get r ''title'' (PStr (lit ''No title'')) of
        Inl e \<Rightarrow> Inl e
      | Inr title \<Rightarrow>
          (case py_get r snippet_key (PStr (lit ''No description'')) of
             Inl e \<Rightarrow> Inl e
           | Inr snippet \<Rightarrow>
               (case py_get r link_key (PStr []) of
                  Inl e \<Rightarrow> Inl e
                | Inr link \<Rightarrow> Inr (render_entry title snippet link))))"

fun format_loop ::
  "string \<Rightarrow> string \<Rightarrow> pyval list \<Rightarrow> pystr list \<Rightarrow> py_exception + pystr list" where
  "format_loop snippet_key link_key [] results = Inr results"
| "format_loop snippet_key link_key (r # rs) results =
     (case format_result snippet_key link_key r of
        Inl e \<Rightarrow> Inl e
      | Inr line \<Rightarrow> format_loop snippet_key link_key rs (results @ [line]))"

text \<open>\<open>return "\n\n".join(results) if results else "No search results found."\<close>.\<close>

definition join_results :: "pystr list \<Rightarrow> pystr" where
  "join_results results =
     (if results \<noteq> [] then py_join [nl, nl] results else lit ''No search results found.'')"

datatype provider = DuckDuckGo | Brave | SerpAPI

text \<open>
  Each provider function returns its result (\<open>None\<close> of the source is \<open>None\<close>) and the
  list of backend calls it made: the library call of the keyless provider, the \<open>GET\<close> of
  a keyed one.
\<close>

definition web_search_duckduckgo :: "world \<Rightarrow> pystr \<Rightarrow> pystr option \<times> provider list" where
  "web_search_duckduckgo w query =
     (if \<not> ddgs_installed w then (None, [])
      else (case ddgs_text w query 3 of
              DdgRaises \<Rightarrow> (None, [DuckDuckGo])
            | DdgResults rs \<Rightarrow>
                (case format_loop ''body'' ''link'' rs [] of
                   Inl e \<Rightarrow> (None, [DuckDuckGo])
                 | Inr results \<Rightarrow> (Some (join_results results), [DuckDuckGo]))))"

text \<open>\<open>str.isspace\<close> of one code point, and \<open>str.strip()\<close>.\<close>

definition py_isspace :: "nat \<Rightarrow> bool" where
  "py_isspace c \<longleftrightarrow>
     (9 \<le> c \<and> c \<le> 13) \<or> (28 \<le> c \<and> c \<le> 32) \<or> c = 133 \<or> c = 160 \<or> c = 5760 \<or>
     (8192 \<le> c \<and> c \<le> 8202) \<or> c = 8232 \<or> c = 8233 \<or> c = 8239 \<or> c = 8287 \<or> c = 12288"

definition py_strip :: "pystr \<Rightarrow> pystr" where
  "py_strip s = rev (dropWhile py_isspace (rev (dropWhile py_isspace s)))"

text \<open>\<open>os.getenv(name, "").strip()\<close>.\<close>

definition getenv_stripped :: "world \<Rightarrow> string \<Rightarrow> pystr" where
  "getenv_stripped w name = py_strip (case getenv w name of None \<Rightarrow> [] | Some v \<Rightarrow> v)"

text \<open>\<open>data.get("web", {}).get("results", [])[:3]\<close>, as the list of visited items.\<close>

definition brave_items :: "pyval \<Rightarrow> py_exception + pyval list" where
  "brave_items data =
     (case py_get data ''web'' (PDict []) of
        Inl e \<Rightarrow> Inl e
      | Inr web \<Rightarrow>
          (case py_get web ''results'' (PList []) of
             Inl e \<Rightarrow> Inl e
           | Inr rs \<Rightarrow>
               (case py_slice 3 rs of Inl e \<Rightarrow> Inl e | Inr rs3 \<Rightarrow> py_iter rs3)))"

definition web_search_brave :: "world \<Rightarrow> pystr \<Rightarrow> pystr option \<times> provider list" where
  "web_search_brave w query =
     (let api_key = getenv_stripped w ''BRAVE_API_KEY''
      in if api_key = [] then (None, [])
         else (case brave_get w query api_key of
                 GetRaises \<Rightarrow> (None, [Brave])
               | GetResponse status_code body \<Rightarrow>
                   if status_code = 200
                   then (case body of
                           JsonRaises c m \<Rightarrow> (None, [Brave])
                         | Json data \<Rightarrow>
                             (case brave_items data of
                                Inl e \<Rightarrow> (None, [Brave])
                              | Inr rs \<Rightarrow>
                                  (case format_loop ''description'' ''url'' rs [] of
                                     Inl e \<Rightarrow> (None, [Brave])
                                   | Inr results \<Rightarrow> (Some (join_results results), [Brave]))))
                   else (None, [Brave])))"

text \<open>\<open>data.get("organic_results", [])[:3]\<close>, as the list of visited items.\<close>

definition serpapi_items :: "pyval \<Rightarrow> py_exception + pyval list" where
  "serpapi_items data =
     (case py_get data ''organic_results'' (PList []) of
        Inl e \<Rightarrow> Inl e
      | Inr rs \<Rightarrow> (case py_slice 3 rs of Inl e \<Rightarrow> Inl e | Inr rs3 \<Rightarrow> py_iter rs3))"

definition web_search_serpapi :: "world \<Rightarrow> pystr \<Rightarrow> pystr option \<times> provider list" where
  "web_search_serpapi w query =
     (let api_key = getenv_stripped w ''SERPAPI_KEY''
      in if api_key = [] then (None, [])
         else (case serpapi_get w query api_key of
                 GetRaises \<Rightarrow> (None, [SerpAPI])
               | GetResponse status_code body \<Rightarrow>
                   if status_code = 200
                   then (case body of
                           JsonRaises c m \<Rightarrow> (None, [SerpAPI])
                         | Json data \<Rightarrow>
                             (case serpapi_items data of
                                Inl e \<Rightarrow> (None, [SerpAPI])
                              | Inr rs \<Rightarrow>
                                  (case format_loop ''snippet'' ''link'' rs [] of
                                     Inl e \<Rightarrow> (None, [SerpAPI])
                                   | Inr results \<Rightarrow> (Some (join_results results), [SerpAPI]))))
                   else (None, [SerpAPI])))"

text \<open>\<open>if s:\<close> on an optional string: neither \<open>None\<close> nor the empty string.\<close>

definition result_truthy :: "pystr option \<Rightarrow> bool" where
  "result_truthy result = (case result of None \<Rightarrow> False | Some s \<Rightarrow> s \<noteq> [])"

text \<open>
  \<open>web_search\<close> first prints \<open>f"Searching web for: {query}"\<close>, outside any \<open>try\<close>: when the
  line cannot be printed, the exception leaves \<open>web_search\<close> before any provider is
  tried.  Otherwise it returns its result and the backend calls made.
\<close>

definition web_search ::
  "world \<Rightarrow> pystr \<Rightarrow> py_exception + (pystr option \<times> provider list)" where
  "web_search w query =
     (if \<not> can_print (stdout_surrogateescape w) (lit ''Searching web for: '' @ query)
      then Inl UnicodeEncodeError
      else Inr
        (let (result, calls1) = web_search_duckduckgo w query
         in if result_truthy result then (result, calls1)
            else let (result, calls2) = web_search_brave w query
                 in if result_truthy result then (result, calls1 @ calls2)
                    else let (result, calls3) = web_search_serpapi w query
                         in if result_truthy result then (result, calls1 @ calls2 @ calls3)
                            else (None, calls1 @ calls2 @ calls3)))"

section \<open>Answer Orchestrator: \<open>ask_claude\<close>\<close>

text \<open>
  \<open>str.lower()\<close>, one code point at a time.  The letters of ASCII and Latin-1 are
  lowered; so are the two code points beyond ASCII whose lower case holds an ASCII
  letter, \<open>U+0130\<close> and the Kelvin sign \<open>U+212A\<close>.  CPython lowers the other cased letters
  beyond Latin-1 too, to code points beyond ASCII.
\<close>

definition lower_char :: "nat \<Rightarrow> pystr" where
  "lower_char c =
     (if 65 \<le> c \<and> c \<le> 90 then [c + 32]
      else if (192 \<le> c \<and> c \<le> 214) \<or> (216 \<le> c \<and> c \<le> 222) then [c + 32]
      else if c = 304 then [105, 775]
      else if c = 8490 then [107]
      else [c])"

definition py_lower :: "pystr \<Rightarrow> pystr" where
  "py_lower s = concat (map lower_char s)"

text \<open>\<open>t in s\<close> for strings: \<open>t\<close> occurs in \<open>s\<close> as a contiguous substring.\<close>

fun contains :: "pystr \<Rightarrow> pystr \<Rightarrow> bool" where
  "contains [] t = (t = [])"
| "contains (c # s) t = (prefix t (c # s) \<or> contains s t)"

definition search_terms :: "string list" where
  "search_terms = [''news'', ''latest'', ''recent'', ''current'', ''market'', ''competitor'',
     ''research'']"

text \<open>\<open>any(term in message.lower() for term in search_terms)\<close>.\<close>

definition should_search :: "pystr \<Rightarrow> bool" where
  "should_search message = list_ex (\<lambda>term. contains (py_lower message) (lit term)) search_terms"

definition system_prompt :: "pystr \<Rightarrow> pystr option \<Rightarrow> pystr" where
  "system_prompt context web_results =
     lit ''You are helping analyze a VC fund'' @ [39] @ lit ''s deal pipeline database.''
       @ [nl, nl] @ lit ''DATABASE CONTEXT:'' @ [nl] @ context @ [nl, nl]
       @ (case web_results of
            None \<Rightarrow> []
          | Some results \<Rightarrow>
              if results \<noteq> [] then lit ''WEB SEARCH RESULTS:'' @ [nl] @ results @ [nl] else [])
       @ [nl, nl]
       @ lit ''Answer questions naturally using the database and web search results when available. Be conversational and insightful.''"

text \<open>\<open>key in v\<close>, \<open>v[key]\<close> for a string \<open>key\<close>, \<open>len(v)\<close> and \<open>v[0]\<close> on a decoded value.\<close>

fun py_in :: "string \<Rightarrow> pyval \<Rightarrow> py_exception + bool" where
  "py_in key (PDict kvs) = Inr (lit key \<in> fst ` set kvs)"
| "py_in key (PList xs) = Inr (PStr (lit key) \<in> set xs)"
| "py_in key (PStr s) = Inr (contains s (lit key))"
| "py_in key v = Inl TypeError"

fun py_item :: "pyval \<Rightarrow> string \<Rightarrow> py_exception + pyval" where
  "py_item (PDict kvs) key =
     (case map_of kvs (lit key) of None \<Rightarrow> Inl KeyError | Some v \<Rightarrow> Inr v)"
| "py_item v key = Inl TypeError"

fun py_len :: "pyval \<Rightarrow> py_exception + nat" where
  "py_len (PStr s) = Inr (length s)"
| "py_len (PList xs) = Inr (length xs)"
| "py_len (PDict kvs) = Inr (length kvs)"
| "py_len v = Inl TypeError"

fun py_first :: "pyval \<Rightarrow> py_exception + pyval" where
  "py_first (PList (x # xs)) = Inr x"
| "py_first (PList []) = Inl IndexError"
| "py_first (PStr (c # s)) = Inr (PStr [c])"
| "py_first (PStr []) = Inl IndexError"
| "py_first (PDict kvs) = Inl KeyError"
| "py_first v = Inl TypeError"

text \<open>
  The extraction from the decoded body of a 200 response:
  \<open>if "content" in data and len(data["content"]) > 0: return data["content"][0]["text"]\<close>,
  \<open>else: return "Claude returned empty response"\<close>.  The result is the exception raised
  with the value it was raised on, or the value returned.
\<close>

definition extract_text :: "pyval \<Rightarrow> (py_exception \<times> pyval) + pyval" where
  "extract_text data =
     (case py_in ''content'' data of
        Inl e \<Rightarrow> Inl (e, data)
      | Inr False \<Rightarrow> Inr (PStr (lit ''Claude returned empty response''))
      | Inr True \<Rightarrow>
          (case py_item data ''content'' of
             Inl e \<Rightarrow> Inl (e, data)
           | Inr content \<Rightarrow>
               (case py_len content of
                  Inl e \<Rightarrow> Inl (e, content)
                | Inr n \<Rightarrow>
                    if n > 0
                    then (case py_first content of
                            Inl e \<Rightarrow> Inl (e, content)
                          | Inr block \<Rightarrow>
                              (case py_item block ''text'' of
                                 Inl e \<Rightarrow> Inl (e, block)
                               | Inr text \<Rightarrow> Inr text))
                    else Inr (PStr (lit ''Claude returned empty response'')))))"

text \<open>The three \<open>except\<close> clauses of \<open>ask_claude\<close>, in the source's order.\<close>

fun handle_exception :: "exn_class \<Rightarrow> pystr \<Rightarrow> pystr" where
  "handle_exception TimeoutExc m = lit ''Request timed out. Please try again.''"
| "handle_exception RequestExc m = lit ''Network error: '' @ m"
| "handle_exception OtherExc m = lit ''Error: '' @ m"

text \<open>
  The outcome of \<open>ask_claude\<close>: the value returned, or the exception that leaves
  \<open>ask_claude\<close>; the session state left behind; and the call of the aggregator made, if
  any, with what it gave.  The aggregator is called outside the \<open>try\<close> block, so that
  its exception is not caught.
\<close>

record ask_outcome =
  answer :: "py_exception + pyval"
  session :: vc_database
  searched :: "(py_exception + (pystr option \<times> provider list)) option"

definition ask_claude :: "world \<Rightarrow> vc_database \<Rightarrow> pystr \<Rightarrow> ask_outcome" where
  "ask_claude w self message =
     (if \<not> result_truthy (claude_api_key self)
      then \<lparr>answer = Inr (PStr (lit ''Claude API not configured'')), session = self,
            searched = None\<rparr>
      else
        let self1 = (if database_context self = [] then fst (sync_database w self) else self);
            search = (if should_search message then Some (web_search w message) else None)
        in case (case search of
                   None \<Rightarrow> Inr None
                 | Some (Inl e) \<Rightarrow> Inl e
                 | Some (Inr (result, calls)) \<Rightarrow> Inr result) of
             Inl e \<Rightarrow> \<lparr>answer = Inl e, session = self1, searched = search\<rparr>
           | Inr web_results \<Rightarrow>
               let api_key = (case claude_api_key self1 of None \<Rightarrow> [] | Some key \<Rightarrow> key);
                   reply = claude_post w api_key
                             (system_prompt (database_context self1) web_results) message;
                   text =
                     (case reply of
                        PostRaises c m \<Rightarrow> PStr (handle_exception c m)
                      | PostResponse status_code body_text body \<Rightarrow>
                          if status_code = 200
                          then (case body of
                                  JsonRaises c m \<Rightarrow> PStr (handle_exception c m)
                                | Json data \<Rightarrow>
                                    (case extract_text data of
                                       Inl (e, v) \<Rightarrow>
                                         PStr (handle_exception OtherExc (error_text w e v))
                                     | Inr text \<Rightarrow> text))
                          else PStr (lit ''Claude API error ('' @ str_int status_code
                                 @ lit ''): ''
                                 @ (if body_text \<noteq> [] then take 200 body_text
                                    else lit ''Unknown error'')))
               in \<lparr>answer = Inr text, session = self1, searched = search\<rparr>)"

section \<open>Example worlds and sessions\<close>

text \<open>
  A world in which nothing answers: every request raises and no key is set.  Standard
  output has the handler \<open>strict\<close>.
\<close>

definition offline :: world where
  "offline =
     \<lparr>airtable_get = (\<lambda>url. FetchRaises), clock = 0, ddgs_installed = False,
      ddgs_text = (\<lambda>query max_results. DdgRaises), getenv = (\<lambda>name. None),
      brave_get = (\<lambda>query token. GetRaises), serpapi_get = (\<lambda>query api_key. GetRaises),
      claude_post = (\<lambda>api_key system message. PostRaises TimeoutExc []),
      error_text = (\<lambda>e v. lit ''error''), stdout_surrogateescape = False\<rparr>"

definition acme :: airtable_record where
  "acme = \<lparr>rec_id = lit ''rec1'',
            rec_fields = Some [(lit ''Company'', PStr (lit ''Acme'')),
                               (lit ''Status'', PStr (lit ''Active''))]\<rparr>"

text \<open>A data store whose table \<open>Companies\<close> holds one record.\<close>

definition store :: "pystr \<Rightarrow> fetch_reply" where
  "store url =
     (if url = lit ''https://api.airtable.com/v0/app1/Companies''
      then FetchResponse 200 (Body (Some [acme]))
      else FetchResponse 404 BodyRaises)"

definition session0 :: vc_database where
  "session0 = \<lparr>airtable_base_url = lit ''https://api.airtable.com/v0/app1'',
     claude_api_key = Some (lit ''sk-1''), database_context = lit ''old context'',
     last_sync = Some 1\<rparr>"

text \<open>One result object, as each provider names its fields.\<close>

definition ddg_hit :: pyval where
  "ddg_hit = PDict [(lit ''title'', PStr (lit ''Acme raises Series A'')),
                    (lit ''body'', PStr (lit ''Funding news'')),
                    (lit ''link'', PStr (lit ''https://example.com/a''))]"

definition brave_hit :: pyval where
  "brave_hit = PDict [(lit ''title'', PStr (lit ''Acme raises Series A'')),
                      (lit ''description'', PStr (lit ''Funding news'')),
                      (lit ''url'', PStr (lit ''https://example.com/a''))]"

definition serpapi_hit :: pyval where
  "serpapi_hit = PDict [(lit ''title'', PStr (lit ''Acme raises Series A'')),
                        (lit ''snippet'', PStr (lit ''Funding news'')),
                        (lit ''link'', PStr (lit ''https://example.com/a''))]"

definition hit_text :: pystr where
  "hit_text = [bullet] @ lit '' Acme raises Series A'' @ [nl] @ lit ''  Funding news'' @ [nl]
     @ lit ''  Source: https://example.com/a''"

text \<open>Both provider keys are set; each keyed provider answers with the one result.\<close>

definition keyed :: world where
  "keyed = offline
     \<lparr>getenv := (\<lambda>name. if name = ''BRAVE_API_KEY'' then Some (lit ''tok1'')
                        else if name = ''SERPAPI_KEY'' then Some (lit ''tok2'') else None),
      brave_get := (\<lambda>query token. GetResponse 200
         (Json (PDict [(lit ''web'', PDict [(lit ''results'', PList [brave_hit])])]))),
      serpapi_get := (\<lambda>query api_key. GetResponse 200
         (Json (PDict [(lit ''organic_results'', PList [serpapi_hit])])))\<rparr>"

text \<open>The keyless provider finds nothing; the keyed providers answer as in \<open>keyed\<close>.\<close>

definition ddg_empty :: world where
  "ddg_empty = keyed\<lparr>ddgs_installed := True, ddgs_text := (\<lambda>query max_results. DdgResults [])\<rparr>"

text \<open>Every provider answers with the one result.\<close>

definition all_hit :: world where
  "all_hit = keyed\<lparr>ddgs_installed := True,
     ddgs_text := (\<lambda>query max_results. DdgResults [ddg_hit])\<rparr>"

text \<open>
  The model answers 200 with a body that is not JSON; decoding it raises the exception
  of the HTTP library, which is a \<open>RequestException\<close>.
\<close>

definition not_json :: world where
  "not_json = offline
     \<lparr>claude_post := (\<lambda>api_key system message.
        PostResponse 200 (lit ''<html>Bad gateway</html>'')
          (JsonRaises RequestExc (lit ''Expecting value: line 1 column 1 (char 0)'')))\<rparr>"

definition latest_question :: pystr where
  "latest_question = lit ''What'' @ [39] @ lit ''s the latest on Acme?''"

definition status_question :: pystr where
  "status_question = lit ''What'' @ [39] @ lit ''s Acme'' @ [39] @ lit ''s status?''"

text \<open>A record whose field \<open>Notes\<close> is a number, and that has no company name.\<close>

definition number_notes :: airtable_record where
  "number_notes = \<lparr>rec_id = lit ''rec2'', rec_fields = Some [(lit ''Notes'', PInt 5)]\<rparr>"

text \<open>A record whose field \<open>Notes\<close> is a list of 40 linked record identifiers.\<close>

definition linked_notes :: airtable_record where
  "linked_notes = \<lparr>rec_id = lit ''rec3'',
     rec_fields = Some [(lit ''Notes'', PList (replicate 40 (PStr (lit ''recA1b2C3d4E5f6G7''))))]\<rparr>"





text \<open>A query that holds a trigger word and a lone surrogate.\<close>

definition surrogate_query :: pystr where
  "surrogate_query = lit ''latest '' @ [55296]"

text \<open>The first keyed provider answers with status 500; the second one answers.\<close>

definition brave_down :: world where
  "brave_down = keyed\<lparr>brave_get := (\<lambda>query token. GetResponse 500 (JsonRaises OtherExc []))\<rparr>"


section \<open>Properties of the Context Builder\<close>

subsection \<open>Auxiliary facts\<close>

lemma lit_eq_iff [simp]: "lit a = lit b \<longleftrightarrow> a = b"
  by (simp add: lit_def inj_map_eq_map inj_of_char)

lemma length_lit [simp]: "length (lit s) = length s"
  by (simp add: lit_def)

lemma lit_append: "lit a @ lit b = lit (a @ b)"
  by (simp add: lit_def)

lemma prefix_lit_app [simp]:
  "prefix (lit a) (lit b @ x) \<longleftrightarrow> prefix (map of_char a :: nat list) (map of_char b @ x)"
  by (simp add: lit_def)

lemma context_loop_append:
  "context_loop rs ctx = Inr out \<Longrightarrow>
     \<exists>bs. list_all2 (\<lambda>r b. record_lines r = Inr b) rs bs \<and> out = ctx @ concat bs"
proof (induction rs arbitrary: ctx)
  case Nil
  then show ?case by simp
next
  case (Cons r rs)
  then obtain ls where ls: "record_lines r = Inr ls" and rest: "context_loop rs (ctx @ ls) = Inr out"
    by (auto split: sum.splits)
  from Cons.IH [OF rest] obtain bs where
    "list_all2 (\<lambda>r b. record_lines r = Inr b) rs bs" "out = (ctx @ ls) @ concat bs" by blast
  with ls have "list_all2 (\<lambda>r b. record_lines r = Inr b) (r # rs) (ls # bs) \<and> out = ctx @ concat (ls # bs)"
    by simp
  then show ?case by blast
qed

lemma context_loop_total:
  "\<forall>r\<in>set rs. \<exists>b. record_lines r = Inr b \<Longrightarrow> \<exists>out. context_loop rs ctx = Inr out"
  by (induction rs arbitrary: ctx) auto

lemma create_context_blocks:
  assumes "fst (create_context rs) = Inr c"
  shows "\<exists>bs. list_all2 (\<lambda>r b. record_lines r = Inr b) rs bs \<and> c = py_join [nl] (header # concat bs)"
proof -
  from assms obtain out where out: "context_loop rs [header] = Inr out" and c: "c = py_join [nl] out"
    by (auto simp: create_context_def Let_def split: sum.splits)
  from context_loop_append [OF out] c show ?thesis by auto
qed

lemma all_fields_loop_union:
  "all_fields_loop rs A = A \<union> (\<Union>r\<in>set rs. fst ` set (get_fields r))"
  by (induction rs arbitrary: A) auto

lemma create_context_printed:
  "snd (create_context rs) = [fields_line (\<Union>r\<in>set rs. fst ` set (get_fields r))]"
  by (simp add: create_context_def Let_def all_fields_loop_union split: sum.splits)


lemma sliced_line_cases:
  "sliced_line label v = Inr ls \<Longrightarrow>
     (\<not> truthy v \<and> ls = []) \<or> (truthy v \<and> (\<exists>w. py_slice 500 v = Inr w \<and> ls = [lit label @ py_str w]))"
  by (auto simp: sliced_line_def split: if_splits sum.splits)

lemma record_lines_Inr:
  assumes "record_lines r = Inr ls"
  shows "\<exists>l4 l5.
     sliced_line ''Notes: '' (resolve (get_fields r) notes_aliases '''') = Inr l4 \<and>
     sliced_line ''Deck Summary: '' (resolve (get_fields r) summary_aliases '''') = Inr l5 \<and>
     ls = [nl # lit ''Company: '' @ py_str (resolve (get_fields r) company_aliases ''Unknown'')]
          @ plain_line ''Status: '' (resolve (get_fields r) status_aliases '''')
          @ plain_line ''Date: '' (resolve (get_fields r) date_aliases '''')
          @ l4 @ l5"
  using assms by (auto simp: record_lines_def Let_def split: sum.splits)

lemma resolve_absent:
  "\<forall>a\<in>set aliases. \<not> truthy (dict_get fs a) \<Longrightarrow> resolve fs aliases d = PStr (lit d)"
  unfolding resolve_def
proof (induction aliases)
  case Nil show ?case by simp
next
  case (Cons a as)
  obtain x xs where "map (dict_get fs) as @ [PStr (lit d)] = x # xs"
    by (cases as) auto
  with Cons show ?case by auto
qed

lemma dict_get_absent: "map_of fs (lit a) = None \<Longrightarrow> \<not> truthy (dict_get fs a)"
  by (simp add: dict_get_def)

lemma record_lines_prefixes:
  assumes "record_lines r = Inr ls"
  shows "(\<exists>l\<in>set ls. prefix (lit ''Status: '') l) \<longleftrightarrow> truthy (resolve (get_fields r) status_aliases '''')"
    and "(\<exists>l\<in>set ls. prefix (lit ''Date: '') l) \<longleftrightarrow> truthy (resolve (get_fields r) date_aliases '''')"
    and "(\<exists>l\<in>set ls. prefix (lit ''Notes: '') l) \<longleftrightarrow> truthy (resolve (get_fields r) notes_aliases '''')"
    and "(\<exists>l\<in>set ls. prefix (lit ''Deck Summary: '') l) \<longleftrightarrow> truthy (resolve (get_fields r) summary_aliases '''')"
    and "\<forall>l\<in>set ls. prefix (lit ''Notes: '') l \<longrightarrow>
           (\<exists>w. py_slice 500 (resolve (get_fields r) notes_aliases '''') = Inr w \<and> l = lit ''Notes: '' @ py_str w)"
    and "\<forall>l\<in>set ls. prefix (lit ''Deck Summary: '') l \<longrightarrow>
           (\<exists>w. py_slice 500 (resolve (get_fields r) summary_aliases '''') = Inr w \<and> l = lit ''Deck Summary: '' @ py_str w)"
    and "ls \<noteq> [] \<and> hd ls = nl # lit ''Company: '' @ py_str (resolve (get_fields r) company_aliases ''Unknown'')"
proof -
  from record_lines_Inr [OF assms] obtain l4 l5 where
    l4: "sliced_line ''Notes: '' (resolve (get_fields r) notes_aliases '''') = Inr l4" and
    l5: "sliced_line ''Deck Summary: '' (resolve (get_fields r) summary_aliases '''') = Inr l5" and
    ls: "ls = [nl # lit ''Company: '' @ py_str (resolve (get_fields r) company_aliases ''Unknown'')]
          @ plain_line ''Status: '' (resolve (get_fields r) status_aliases '''')
          @ plain_line ''Date: '' (resolve (get_fields r) date_aliases '''')
          @ l4 @ l5" by blast
  note c4 = sliced_line_cases [OF l4] and c5 = sliced_line_cases [OF l5]
  show "(\<exists>l\<in>set ls. prefix (lit ''Status: '') l) \<longleftrightarrow> truthy (resolve (get_fields r) status_aliases '''')"
    using c4 c5 unfolding ls by (auto simp: plain_line_def nl_def lit_def)
  show "(\<exists>l\<in>set ls. prefix (lit ''Date: '') l) \<longleftrightarrow> truthy (resolve (get_fields r) date_aliases '''')"
    using c4 c5 unfolding ls by (auto simp: plain_line_def nl_def lit_def)
  show "(\<exists>l\<in>set ls. prefix (lit ''Notes: '') l) \<longleftrightarrow> truthy (resolve (get_fields r) notes_aliases '''')"
    using c4 c5 unfolding ls by (auto simp: plain_line_def nl_def lit_def)
  show "(\<exists>l\<in>set ls. prefix (lit ''Deck Summary: '') l) \<longleftrightarrow> truthy (resolve (get_fields r) summary_aliases '''')"
    using c4 c5 unfolding ls by (auto simp: plain_line_def nl_def lit_def)
  show "\<forall>l\<in>set ls. prefix (lit ''Notes: '') l \<longrightarrow>
           (\<exists>w. py_slice 500 (resolve (get_fields r) notes_aliases '''') = Inr w \<and> l = lit ''Notes: '' @ py_str w)"
    using c4 c5 unfolding ls by (auto simp: plain_line_def nl_def lit_def)
  show "\<forall>l\<in>set ls. prefix (lit ''Deck Summary: '') l \<longrightarrow>
           (\<exists>w. py_slice 500 (resolve (get_fields r) summary_aliases '''') = Inr w \<and> l = lit ''Deck Summary: '' @ py_str w)"
    using c4 c5 unfolding ls by (auto simp: plain_line_def nl_def lit_def)
  show "ls \<noteq> [] \<and> hd ls = nl # lit ''Company: '' @ py_str (resolve (get_fields r) company_aliases ''Unknown'')"
    unfolding ls by simp
qed

lemma resolve_map_of_cong:
  assumes "map_of fs = map_of fs'"
  shows "resolve fs as d = resolve fs' as d"
proof -
  have "dict_get fs = dict_get fs'" by (rule ext) (simp add: dict_get_def assms)
  then show ?thesis by (simp add: resolve_def)
qed


lemma record_lines_resolve_cong:
  assumes "\<And>as d. resolve (get_fields r) as d = resolve (get_fields r') as d"
  shows "record_lines r = record_lines r'"
  unfolding record_lines_def Let_def assms ..

lemma record_lines_fields:
  "map_of (get_fields r) = map_of (get_fields r') \<Longrightarrow> record_lines r = record_lines r'"
  by (intro record_lines_resolve_cong resolve_map_of_cong)

lemma context_loop_fields:
  "map (\<lambda>r. map_of (get_fields r)) rs = map (\<lambda>r. map_of (get_fields r)) rs' \<Longrightarrow>
   context_loop rs ctx = context_loop rs' ctx"
proof (induction rs arbitrary: rs' ctx)
  case Nil then show ?case by simp
next
  case (Cons r rs)
  then obtain r' rs2 where rs': "rs' = r' # rs2" by (cases rs') auto
  with Cons.prems have a: "map_of (get_fields r) = map_of (get_fields r')"
    and b: "map (\<lambda>r. map_of (get_fields r)) rs = map (\<lambda>r. map_of (get_fields r)) rs2"
    by auto
  show ?case unfolding rs'
    by (simp add: record_lines_fields [OF a] Cons.IH [OF b] split: sum.splits)
qed

lemma length_py_join_replicate:
  "length (py_join sep (replicate (Suc n) x)) = Suc n * length x + n * length sep"
  by (induction n) simp_all

lemmas ctx_eval = record_lines_def get_fields_def resolve_def company_aliases_def
        status_aliases_def notes_aliases_def date_aliases_def summary_aliases_def dict_get_def
        plain_line_def sliced_line_def py_str_def lit_def


subsection \<open>Record order and the 500-character budget\<close>

text \<open>
  Whenever \<open>create_context\<close> returns a context, it is the header followed by the blocks
  of the records in input order (lemma \<open>create_context_blocks\<close>).  In a block, a Notes or
  Deck Summary value that is a string is emitted cut to its first 500 characters.
\<close>

lemma create_context_slices_strings:
  assumes "record_lines r = Inr ls"
  shows "(\<forall>l\<in>set ls. \<forall>s. prefix (lit ''Notes: '') l \<and>
            resolve (get_fields r) notes_aliases '''' = PStr s \<longrightarrow>
            l = lit ''Notes: '' @ take 500 s \<and> length l \<le> length ''Notes: '' + 500) \<and>
         (\<forall>l\<in>set ls. \<forall>s. prefix (lit ''Deck Summary: '') l \<and>
            resolve (get_fields r) summary_aliases '''' = PStr s \<longrightarrow>
            l = lit ''Deck Summary: '' @ take 500 s \<and>
            length l \<le> length ''Deck Summary: '' + 500)"
  using record_lines_prefixes(5,6) [OF assms] by (fastforce simp: py_str_def)


text \<open>
  Claim C4.  The source cuts the Notes and the Deck Summary value with the slice
  \<open>[:500]\<close>, which bounds a string by 500 characters and a list by 500 elements.  So the
  bound of the claim fails for a value that is not a string: for the record
  \<open>linked_notes\<close>, whose Notes field is a list of 40 record identifiers, \<open>record_lines\<close>
  emits the list whole, and the emitted Notes text has 840 characters.
\<close>

theorem notes_list_exceeds_500:
  "record_lines linked_notes =
     Inr [nl # lit ''Company: Unknown'',
          lit ''Notes: '' @ py_str (PList (replicate 40 (PStr (lit ''recA1b2C3d4E5f6G7''))))] \<and>
   length (py_str (PList (replicate 40 (PStr (lit ''recA1b2C3d4E5f6G7''))))) = 840"
proof
  show "record_lines linked_notes =
     Inr [nl # lit ''Company: Unknown'',
          lit ''Notes: '' @ py_str (PList (replicate 40 (PStr (lit ''recA1b2C3d4E5f6G7''))))]"
    by (simp add: linked_notes_def record_lines_def get_fields_def resolve_def
        company_aliases_def status_aliases_def notes_aliases_def date_aliases_def
        summary_aliases_def dict_get_def plain_line_def sliced_line_def py_str_def lit_def)
  have "length (py_join (lit '', '') (replicate (Suc 39) (repr_str (lit ''recA1b2C3d4E5f6G7'')))) =
        Suc 39 * length (repr_str (lit ''recA1b2C3d4E5f6G7'')) + 39 * length (lit '', '')"
    by (rule length_py_join_replicate)
  moreover have "length (repr_str (lit ''recA1b2C3d4E5f6G7'')) = 19"
    by (simp add: repr_str_def repr_quote_def repr_char_def lit_def)
  ultimately show "length (py_str (PList (replicate 40 (PStr (lit ''recA1b2C3d4E5f6G7''))))) = 840"
    by (simp add: py_str_def)
qed


subsection \<open>Unresolved slots\<close>

text \<open>
  In the lines emitted for a record, the first line is \<open>Company: Unknown\<close> (after the
  newline that separates the blocks) when none of the company-name aliases is a field
  of the record, and no line carries the label of a slot none of whose aliases is a
  field of the record.
\<close>

lemma record_lines_unresolved:
  assumes "record_lines r = Inr ls"
  shows "((\<forall>a\<in>set company_aliases. map_of (get_fields r) (lit a) = None) \<longrightarrow>
            ls \<noteq> [] \<and> hd ls = nl # lit ''Company: Unknown'') \<and>
         ((\<forall>a\<in>set status_aliases. map_of (get_fields r) (lit a) = None) \<longrightarrow>
            \<not> (\<exists>l\<in>set ls. prefix (lit ''Status: '') l)) \<and>
         ((\<forall>a\<in>set date_aliases. map_of (get_fields r) (lit a) = None) \<longrightarrow>
            \<not> (\<exists>l\<in>set ls. prefix (lit ''Date: '') l)) \<and>
         ((\<forall>a\<in>set notes_aliases. map_of (get_fields r) (lit a) = None) \<longrightarrow>
            \<not> (\<exists>l\<in>set ls. prefix (lit ''Notes: '') l)) \<and>
         ((\<forall>a\<in>set summary_aliases. map_of (get_fields r) (lit a) = None) \<longrightarrow>
            \<not> (\<exists>l\<in>set ls. prefix (lit ''Deck Summary: '') l))"
proof -
  have absent: "resolve (get_fields r) as d = PStr (lit d)"
    if "\<forall>a\<in>set as. map_of (get_fields r) (lit a) = None" for as d
    using that by (intro resolve_absent) (simp add: dict_get_absent)
  have empty: "\<not> truthy (PStr (lit ''''))" by (simp add: lit_def)
  show ?thesis
    using record_lines_prefixes(1-4,7) [OF assms] absent empty
    by (simp add: py_str_def lit_def)
qed


text \<open>
  Claim C5.  Not every record has lines emitted for it.  The record \<open>number_notes\<close> has
  no company-name alias and the number 5 as its Notes value: the slice \<open>notes[:500]\<close>
  raises \<open>TypeError\<close>, so that no line \<open>Company: Unknown\<close> is emitted for the record, and
  \<open>create_context\<close> raises on every sequence that holds it, here after the record \<open>acme\<close>.
\<close>

theorem number_notes_emits_nothing:
  "record_lines number_notes = Inl TypeError \<and>
   fst (create_context [acme, number_notes]) = Inl TypeError"
proof -
  have n: "record_lines number_notes = Inl TypeError"
    by (simp add: number_notes_def ctx_eval)
  have a: "record_lines acme = Inr [nl # lit ''Company: Acme'', lit ''Status: Active'']"
    by (simp add: acme_def ctx_eval)
  show ?thesis by (simp add: create_context_def Let_def n a)
qed


subsection \<open>Falsy values\<close>





section \<open>Properties of sync\<close>


text \<open>
  Claim C3.  A sync whose fetch produces no record leaves the session state (the
  context and the time of the last sync) unchanged and reports \<open>False\<close>; every sync
  that reports \<open>False\<close> leaves the state unchanged; and a sync that reports \<open>True\<close> had
  at least one record and replaced the context by the one built from the records.
\<close>

theorem sync_database_failure_keeps_state:
  "(find_table w self = [] \<longrightarrow> sync_database w self = (self, False)) \<and>
   (\<not> snd (sync_database w self) \<longrightarrow> fst (sync_database w self) = self) \<and>
   (snd (sync_database w self) \<longrightarrow>
      find_table w self \<noteq> [] \<and>
      (\<exists>c. fst (create_context (find_table w self)) = Inr c \<and>
           fst (sync_database w self) = self\<lparr>database_context := c, last_sync := Some (clock w)\<rparr>))"
  by (auto simp: sync_database_def Let_def split: sum.splits)

theorem sync_database_failure_keeps_state_witness:
  "find_table offline session0 = [] \<and> sync_database offline session0 = (session0, False)"
proof -
  have h: "find_table offline session0 = []"
    by (simp add: find_table_def possible_names_def fetch_table_def offline_def)
  with sync_database_failure_keeps_state [of offline session0] show ?thesis by simp
qed


subsection \<open>The log line of the Context Builder\<close>

text \<open>
  The line that \<open>create_context\<close> prints is the \<open>repr\<close> of a list of strings, which holds
  no surrogate: it can be printed whatever the field names are.
\<close>

lemma hexdigit_small: "d < 16 \<Longrightarrow> hexdigit d < 128"
  by (simp add: hexdigit_def)

lemma repr_char_no_surrogate:
  assumes q: "q < 128" and c: "c \<in> set (repr_char q x)"
  shows "c < 55296 \<or> 57343 < c"
proof -
  have m: "hexdigit (n mod 16) < 128" for n by (rule hexdigit_small) simp
  consider (esc) "x = q \<or> x = 92" | (ctl) "x \<noteq> q" "x \<noteq> 92" "x = 9 \<or> x = 10 \<or> x = 13"
    | (hex) "x \<noteq> q" "x \<noteq> 92" "x \<noteq> 9" "x \<noteq> 10" "x \<noteq> 13" "x < 32 \<or> (127 \<le> x \<and> x \<le> 160) \<or> x = 173"
    | (sur) "x \<noteq> q" "x \<noteq> 92" "x \<noteq> 9" "x \<noteq> 10" "x \<noteq> 13" "\<not> (x < 32 \<or> (127 \<le> x \<and> x \<le> 160) \<or> x = 173)" "55296 \<le> x \<and> x \<le> 57343"
    | (cpy) "x \<noteq> q" "x \<noteq> 92" "x \<noteq> 9" "x \<noteq> 10" "x \<noteq> 13" "\<not> (x < 32 \<or> (127 \<le> x \<and> x \<le> 160) \<or> x = 173)" "\<not> (55296 \<le> x \<and> x \<le> 57343)"
    by blast
  then show ?thesis
  proof cases
    case esc
    with c q show ?thesis by (auto simp: repr_char_def)
  next
    case ctl
    with c show ?thesis by (auto simp: repr_char_def)
  next
    case hex
    then have "x div 16 < 16" by auto
    then have "hexdigit (x div 16) < 128" by (rule hexdigit_small)
    with hex c m [of x] show ?thesis by (auto simp: repr_char_def)
  next
    case sur
    then have "x div 4096 < 16" by auto
    then have "hexdigit (x div 4096) < 128" by (rule hexdigit_small)
    with sur c m [of x] m [of "x div 16"] m [of "x div 256"] show ?thesis
      by (auto simp: repr_char_def)
  next
    case cpy
    with c show ?thesis by (auto simp: repr_char_def)
  qed
qed

lemma repr_str_no_surrogate: "c \<in> set (repr_str s) \<Longrightarrow> c < 55296 \<or> 57343 < c"
proof -
  have q: "repr_quote s < 128" by (simp add: repr_quote_def)
  show "c \<in> set (repr_str s) \<Longrightarrow> c < 55296 \<or> 57343 < c"
    using repr_char_no_surrogate [OF q] q by (auto simp: repr_str_def Let_def)
qed

lemma py_join_set: "set (py_join sep xs) \<subseteq> set sep \<union> \<Union> (set ` set xs)"
  by (induction sep xs rule: py_join.induct) auto

lemma fields_line_printable: "can_print b (fields_line A)"
proof -
  have j: "c < 55296 \<or> 57343 < c" if "c \<in> set (py_join (lit '', '') (map repr_str ns))" for ns c
  proof -
    from that py_join_set [of "lit '', ''" "map repr_str ns"]
    have "c \<in> set (lit '', '') \<or> (\<exists>n\<in>set ns. c \<in> set (repr_str n))" by auto
    then show ?thesis using repr_str_no_surrogate by (auto simp: lit_def)
  qed
  have "c < 55296 \<or> 57343 < c" if "c \<in> set (fields_line A)" for c
    using that j [of c "sorted_list_of_set A"]
    by (auto simp: fields_line_def py_str_def comp_def lit_def)
  then show ?thesis by (fastforce simp: can_print_def)
qed


subsection \<open>What the context depends on\<close>

lemma find_table_cong:
  assumes "airtable_get w' = airtable_get w" "airtable_base_url s' = airtable_base_url s"
  shows "find_table w' s' = find_table w s"
proof -
  have f: "fetch_table w' s' n = fetch_table w s n" for n
    by (simp add: fetch_table_def assms)
  have "find_table_loop w' s' ns = find_table_loop w s ns" for ns
    by (induction ns) (simp_all add: f Let_def)
  then show ?thesis by (simp add: find_table_def)
qed

lemma sync_database_url: "airtable_base_url (fst (sync_database w s)) = airtable_base_url s"
  by (simp add: sync_database_def Let_def split: sum.splits)


text \<open>
  Claim C8, as the code has it.  \<open>create_context\<close> prints one line, the sorted list of
  the field names that occur in the records.  The context it returns is the header
  followed by the blocks of the records in input order, joined by newlines; it returns
  one whenever every record has lines; and what it returns depends on the field
  mappings of the records alone.  A second sync against an unchanged data store (at
  whatever time) reports what the first one reported and stores the same context.
\<close>

theorem create_context_function_of_fields:
  assumes "airtable_get w' = airtable_get w"
  shows "snd (create_context rs) =
           [lit ''Available fields in Airtable: '' @
            py_str (PList (map PStr (sorted_list_of_set (\<Union>r\<in>set rs. fst ` set (get_fields r)))))] \<and>
         (\<forall>c. fst (create_context rs) = Inr c \<longrightarrow>
            (\<exists>bs. list_all2 (\<lambda>r b. record_lines r = Inr b) rs bs \<and>
                  c = py_join [nl] (header # concat bs))) \<and>
         ((\<forall>r\<in>set rs. \<exists>b. record_lines r = Inr b) \<longrightarrow> (\<exists>c. fst (create_context rs) = Inr c)) \<and>
         (map (\<lambda>r. map_of (get_fields r)) rs = map (\<lambda>r. map_of (get_fields r)) rs' \<longrightarrow>
            fst (create_context rs) = fst (create_context rs')) \<and>
         snd (sync_database w' (fst (sync_database w self))) = snd (sync_database w self) \<and>
         database_context (fst (sync_database w' (fst (sync_database w self)))) =
           database_context (fst (sync_database w self))"
proof -
  have f: "find_table w' (fst (sync_database w self)) = find_table w self"
    by (rule find_table_cong [OF assms sync_database_url])
  have 1: "snd (create_context rs) =
           [lit ''Available fields in Airtable: '' @
            py_str (PList (map PStr (sorted_list_of_set (\<Union>r\<in>set rs. fst ` set (get_fields r)))))]"
    by (simp add: create_context_printed fields_line_def)
  have 2: "\<forall>c. fst (create_context rs) = Inr c \<longrightarrow>
            (\<exists>bs. list_all2 (\<lambda>r b. record_lines r = Inr b) rs bs \<and>
                  c = py_join [nl] (header # concat bs))"
    using create_context_blocks by blast
  have 3: "(\<forall>r\<in>set rs. \<exists>b. record_lines r = Inr b) \<longrightarrow> (\<exists>c. fst (create_context rs) = Inr c)"
  proof
    assume "\<forall>r\<in>set rs. \<exists>b. record_lines r = Inr b"
    from context_loop_total [OF this, of "[header]"] show "\<exists>c. fst (create_context rs) = Inr c"
      by (auto simp: create_context_def Let_def)
  qed
  have 4: "map (\<lambda>r. map_of (get_fields r)) rs = map (\<lambda>r. map_of (get_fields r)) rs' \<longrightarrow>
            fst (create_context rs) = fst (create_context rs')"
    using context_loop_fields [of rs rs' "[header]"]
    by (simp add: create_context_def Let_def split: sum.splits)
  have 5: "snd (sync_database w' (fst (sync_database w self))) = snd (sync_database w self)"
    unfolding sync_database_def [of w'] f
    by (simp add: sync_database_def Let_def split: sum.splits)
  have 6: "database_context (fst (sync_database w' (fst (sync_database w self)))) =
           database_context (fst (sync_database w self))"
    unfolding sync_database_def [of w'] f
    by (simp add: sync_database_def Let_def split: sum.splits)
  from 1 2 3 4 5 6 show ?thesis by blast
qed

lemma find_table_store:
  "find_table (offline\<lparr>airtable_get := store, clock := t\<rparr>) (session0\<lparr>database_context := c, last_sync := l\<rparr>) = [acme]"
  by (simp add: find_table_def possible_names_def fetch_table_def session0_def store_def lit_append)

lemma create_context_acme:
  "fst (create_context [acme]) =
     Inr (header @ [nl, nl] @ lit ''Company: Acme'' @ [nl] @ lit ''Status: Active'')"
  by (simp add: create_context_def acme_def ctx_eval)

theorem create_context_function_of_fields_witness:
  "airtable_get (offline\<lparr>airtable_get := store, clock := 9\<rparr>) =
     airtable_get (offline\<lparr>airtable_get := store, clock := 7\<rparr>) \<and>
   database_context (fst (sync_database (offline\<lparr>airtable_get := store, clock := 9\<rparr>)
       (fst (sync_database (offline\<lparr>airtable_get := store, clock := 7\<rparr>) session0)))) =
     header @ [nl, nl] @ lit ''Company: Acme'' @ [nl] @ lit ''Status: Active''"
proof -
  let ?w = "offline\<lparr>airtable_get := store, clock := 7\<rparr>"
  let ?w' = "offline\<lparr>airtable_get := store, clock := 9\<rparr>"
  have h: "airtable_get ?w' = airtable_get ?w" by simp
  have s: "session0 = session0\<lparr>database_context := database_context session0, last_sync := last_sync session0\<rparr>"
    by simp
  have "find_table ?w session0 = [acme]"
    by (subst s) (rule find_table_store)
  then have "database_context (fst (sync_database ?w session0)) =
     header @ [nl, nl] @ lit ''Company: Acme'' @ [nl] @ lit ''Status: Active''"
    by (simp add: sync_database_def create_context_acme)
  with create_context_function_of_fields [OF h, of "[]" "[]" session0] h show ?thesis by simp
qed


text \<open>
  Claim C8 as stated does not hold: the Context Builder is not free of I/O.  Called on
  the one record \<open>acme\<close>, it writes the line
  \<open>Available fields in Airtable: ['Company', 'Status']\<close> to the standard output.
\<close>

theorem create_context_prints_counterexample:
  "snd (create_context [acme]) =
     [lit ''Available fields in Airtable: ['' @ [39] @ lit ''Company'' @ [39] @ lit '', ''
        @ [39] @ lit ''Status'' @ [39] @ lit '']'']"
proof -
  have "(\<Union>r\<in>set [acme]. fst ` set (get_fields r)) = set [lit ''Company'', lit ''Status'']"
    by (simp add: acme_def get_fields_def)
  moreover have "sorted_list_of_set (set [lit ''Company'', lit ''Status'']) = [lit ''Company'', lit ''Status'']"
    by (simp add: sorted_list_of_set_sort_remdups lit_def)
  ultimately show ?thesis
    by (simp add: create_context_printed fields_line_def py_str_def repr_str_def repr_quote_def
        repr_char_def lit_def)
qed


section \<open>Properties of the Search Aggregator\<close>

subsection \<open>Auxiliary facts\<close>

text \<open>
  A result object is rendered exactly when it is a dictionary.  A provider returns
  \<open>None\<close> exactly when it is skipped or fails: the library is missing or raises, the
  token is empty, the request raises, the status is not 200, the body cannot be
  decoded, or the body does not have the shape the provider reads.
\<close>

lemma render_entry_nonempty: "render_entry t s l \<noteq> []"
  by (simp add: render_entry_def)

lemma format_result_nonempty: "format_result k l r = Inr x \<Longrightarrow> x \<noteq> []"
  by (auto simp: format_result_def render_entry_nonempty split: sum.splits)

lemma format_loop_nonempty:
  "format_loop k l rs acc = Inr results \<Longrightarrow> \<forall>x\<in>set acc. x \<noteq> [] \<Longrightarrow> \<forall>x\<in>set results. x \<noteq> []"
proof (induction rs arbitrary: acc)
  case Nil then show ?case by simp
next
  case (Cons r rs)
  from Cons.prems(1) obtain line where l: "format_result k l r = Inr line"
    and rest: "format_loop k l rs (acc @ [line]) = Inr results"
    by (auto split: sum.splits)
  from format_result_nonempty [OF l] Cons.prems(2) have "\<forall>x\<in>set (acc @ [line]). x \<noteq> []" by auto
  from Cons.IH [OF rest this] show ?case .
qed

lemma py_join_nonempty: "x \<noteq> [] \<Longrightarrow> py_join sep (x # xs) \<noteq> []"
  by (cases xs) auto

lemma join_results_nonempty: "\<forall>x\<in>set results. x \<noteq> [] \<Longrightarrow> join_results results \<noteq> []"
  by (cases results) (auto simp: join_results_def lit_def py_join_nonempty)

lemma joined_loop_nonempty: "format_loop k l rs [] = Inr results \<Longrightarrow> join_results results \<noteq> []"
  using format_loop_nonempty [of k l rs "[]" results] by (simp add: join_results_nonempty)

lemma format_result_dict:
  "format_result k l (PDict kvs) =
     Inr (render_entry
           (case map_of kvs (lit ''title'') of None \<Rightarrow> PStr (lit ''No title'') | Some v \<Rightarrow> v)
           (case map_of kvs (lit k) of None \<Rightarrow> PStr (lit ''No description'') | Some v \<Rightarrow> v)
           (case map_of kvs (lit l) of None \<Rightarrow> PStr [] | Some v \<Rightarrow> v))"
  by (simp add: format_result_def)

lemma format_result_Inl_iff: "(\<exists>e. format_result k l r = Inl e) \<longleftrightarrow> (\<forall>kvs. r \<noteq> PDict kvs)"
  by (cases r) (simp_all add: format_result_def)

lemma format_loop_Inl_iff:
  "(\<exists>e. format_loop k l rs acc = Inl e) \<longleftrightarrow> (\<exists>r\<in>set rs. \<forall>kvs. r \<noteq> PDict kvs)"
proof (induction rs arbitrary: acc)
  case Nil show ?case by simp
next
  case (Cons r rs)
  show ?case
  proof (cases "format_result k l r")
    case (Inl e)
    with format_result_Inl_iff [of k l r] show ?thesis by auto
  next
    case (Inr line)
    with format_result_Inl_iff [of k l r] have "\<exists>kvs. r = PDict kvs" by auto
    with Inr Cons.IH [of "acc @ [line]"] show ?thesis by auto
  qed
qed

lemma format_loop_None_iff:
  "(case format_loop k l rs [] of Inl e \<Rightarrow> None | Inr results \<Rightarrow> Some (join_results results)) = None
     \<longleftrightarrow> (\<exists>r\<in>set rs. \<forall>kvs. r \<noteq> PDict kvs)"
  using format_loop_Inl_iff [of k l rs "[]"] by (auto split: sum.splits)

lemma duckduckgo_None_iff:
  "fst (web_search_duckduckgo w q) = None \<longleftrightarrow>
     \<not> ddgs_installed w \<or> ddgs_text w q 3 = DdgRaises \<or>
     (\<exists>rs. ddgs_text w q 3 = DdgResults rs \<and> (\<exists>r\<in>set rs. \<forall>kvs. r \<noteq> PDict kvs))"
proof (cases "ddgs_text w q 3")
  case DdgRaises
  then show ?thesis by (simp add: web_search_duckduckgo_def)
next
  case (DdgResults rs)
  have "fst (web_search_duckduckgo w q) =
      (if \<not> ddgs_installed w then None
       else case format_loop ''body'' ''link'' rs [] of Inl e \<Rightarrow> None
            | Inr results \<Rightarrow> Some (join_results results))"
    by (simp add: web_search_duckduckgo_def DdgResults split: sum.splits)
  then show ?thesis using format_loop_None_iff [of "''body''" "''link''" rs] DdgResults by auto
qed

lemma keyed_None_iff:
  "(case reply of
      GetRaises \<Rightarrow> None
    | GetResponse status_code body \<Rightarrow>
        if status_code = 200
        then (case body of
                JsonRaises c m \<Rightarrow> None
              | Json data \<Rightarrow>
                  (case items data of
                     Inl e \<Rightarrow> None
                   | Inr rs \<Rightarrow>
                       (case format_loop k l rs [] of
                          Inl e \<Rightarrow> None
                        | Inr results \<Rightarrow> Some (join_results results))))
        else None) = None \<longleftrightarrow>
   reply = GetRaises \<or>
   (\<exists>status_code body. reply = GetResponse status_code body \<and>
      (status_code \<noteq> 200 \<or> (\<exists>c m. body = JsonRaises c m) \<or>
       (\<exists>data. body = Json data \<and>
          ((\<exists>e. items data = Inl e) \<or>
           (\<exists>rs. items data = Inr rs \<and> (\<exists>r\<in>set rs. \<forall>kvs. r \<noteq> PDict kvs))))))"
proof (cases reply)
  case GetRaises then show ?thesis by simp
next
  case (GetResponse st body)
  show ?thesis
  proof (cases body)
    case (JsonRaises c m)
    with GetResponse show ?thesis by simp
  next
    case (Json data)
    show ?thesis
    proof (cases "items data")
      case (Inl e)
      with GetResponse Json show ?thesis by simp
    next
      case (Inr rs)
      with GetResponse Json format_loop_None_iff [of k l rs] show ?thesis by simp
    qed
  qed
qed

lemma brave_fst:
  "fst (web_search_brave w q) =
     (if getenv_stripped w ''BRAVE_API_KEY'' = [] then None
      else case brave_get w q (getenv_stripped w ''BRAVE_API_KEY'') of
      GetRaises \<Rightarrow> None
    | GetResponse status_code body \<Rightarrow>
        if status_code = 200
        then (case body of
                JsonRaises c m \<Rightarrow> None
              | Json data \<Rightarrow>
                  (case brave_items data of
                     Inl e \<Rightarrow> None
                   | Inr rs \<Rightarrow>
                       (case format_loop ''description'' ''url'' rs [] of
                          Inl e \<Rightarrow> None
                        | Inr results \<Rightarrow> Some (join_results results))))
        else None)"
  by (simp add: web_search_brave_def Let_def
      split: search_reply.splits json_result.splits sum.splits)

lemma serpapi_fst:
  "fst (web_search_serpapi w q) =
     (if getenv_stripped w ''SERPAPI_KEY'' = [] then None
      else case serpapi_get w q (getenv_stripped w ''SERPAPI_KEY'') of
      GetRaises \<Rightarrow> None
    | GetResponse status_code body \<Rightarrow>
        if status_code = 200
        then (case body of
                JsonRaises c m \<Rightarrow> None
              | Json data \<Rightarrow>
                  (case serpapi_items data of
                     Inl e \<Rightarrow> None
                   | Inr rs \<Rightarrow>
                       (case format_loop ''snippet'' ''link'' rs [] of
                          Inl e \<Rightarrow> None
                        | Inr results \<Rightarrow> Some (join_results results))))
        else None)"
  by (simp add: web_search_serpapi_def Let_def
      split: search_reply.splits json_result.splits sum.splits)

lemma brave_None_iff:
  "fst (web_search_brave w q) = None \<longleftrightarrow>
     getenv_stripped w ''BRAVE_API_KEY'' = [] \<or>
     brave_get w q (getenv_stripped w ''BRAVE_API_KEY'') = GetRaises \<or>
     (\<exists>status_code body.
        brave_get w q (getenv_stripped w ''BRAVE_API_KEY'') = GetResponse status_code body \<and>
        (status_code \<noteq> 200 \<or> (\<exists>c m. body = JsonRaises c m) \<or>
         (\<exists>data. body = Json data \<and>
            ((\<exists>e. brave_items data = Inl e) \<or>
             (\<exists>rs. brave_items data = Inr rs \<and> (\<exists>r\<in>set rs. \<forall>kvs. r \<noteq> PDict kvs))))))"
  unfolding brave_fst
  using keyed_None_iff [where reply = "brave_get w q (getenv_stripped w ''BRAVE_API_KEY'')"
      and items = brave_items and k = "''description''" and l = "''url''"]
  by (cases "getenv_stripped w ''BRAVE_API_KEY'' = []") simp_all

lemma serpapi_None_iff:
  "fst (web_search_serpapi w q) = None \<longleftrightarrow>
     getenv_stripped w ''SERPAPI_KEY'' = [] \<or>
     serpapi_get w q (getenv_stripped w ''SERPAPI_KEY'') = GetRaises \<or>
     (\<exists>status_code body.
        serpapi_get w q (getenv_stripped w ''SERPAPI_KEY'') = GetResponse status_code body \<and>
        (status_code \<noteq> 200 \<or> (\<exists>c m. body = JsonRaises c m) \<or>
         (\<exists>data. body = Json data \<and>
            ((\<exists>e. serpapi_items data = Inl e) \<or>
             (\<exists>rs. serpapi_items data = Inr rs \<and> (\<exists>r\<in>set rs. \<forall>kvs. r \<noteq> PDict kvs))))))"
  unfolding serpapi_fst
  using keyed_None_iff [where reply = "serpapi_get w q (getenv_stripped w ''SERPAPI_KEY'')"
      and items = serpapi_items and k = "''snippet''" and l = "''link''"]
  by (cases "getenv_stripped w ''SERPAPI_KEY'' = []") simp_all

lemma duckduckgo_nonempty: "fst (web_search_duckduckgo w q) = Some s \<Longrightarrow> s \<noteq> []"
  by (auto simp: web_search_duckduckgo_def joined_loop_nonempty split: if_splits ddg_reply.splits sum.splits)

lemma brave_nonempty: "fst (web_search_brave w q) = Some s \<Longrightarrow> s \<noteq> []"
  by (auto simp: web_search_brave_def Let_def joined_loop_nonempty
      split: if_splits search_reply.splits json_result.splits sum.splits)

lemma serpapi_nonempty: "fst (web_search_serpapi w q) = Some s \<Longrightarrow> s \<noteq> []"
  by (auto simp: web_search_serpapi_def Let_def joined_loop_nonempty
      split: if_splits search_reply.splits json_result.splits sum.splits)

lemma duckduckgo_truthy: "result_truthy (fst (web_search_duckduckgo w q)) \<longleftrightarrow> fst (web_search_duckduckgo w q) \<noteq> None"
  using duckduckgo_nonempty [of w q] by (auto simp: result_truthy_def split: option.splits)

lemma brave_truthy: "result_truthy (fst (web_search_brave w q)) \<longleftrightarrow> fst (web_search_brave w q) \<noteq> None"
  using brave_nonempty [of w q] by (auto simp: result_truthy_def split: option.splits)

lemma serpapi_truthy: "result_truthy (fst (web_search_serpapi w q)) \<longleftrightarrow> fst (web_search_serpapi w q) \<noteq> None"
  using serpapi_nonempty [of w q] by (auto simp: result_truthy_def split: option.splits)

lemma duckduckgo_calls:
  "snd (web_search_duckduckgo w q) = (if ddgs_installed w then [DuckDuckGo] else [])"
  by (auto simp: web_search_duckduckgo_def split: ddg_reply.splits sum.splits)

lemma brave_calls:
  "snd (web_search_brave w q) = (if getenv_stripped w ''BRAVE_API_KEY'' = [] then [] else [Brave])"
  by (auto simp: web_search_brave_def Let_def split: search_reply.splits json_result.splits sum.splits)

lemma serpapi_calls:
  "snd (web_search_serpapi w q) = (if getenv_stripped w ''SERPAPI_KEY'' = [] then [] else [SerpAPI])"
  by (auto simp: web_search_serpapi_def Let_def split: search_reply.splits json_result.splits sum.splits)

lemma web_search_chain:
  "web_search w q =
     (if \<not> can_print (stdout_surrogateescape w) (lit ''Searching web for: '' @ q)
      then Inl UnicodeEncodeError
      else Inr
       (if fst (web_search_duckduckgo w q) \<noteq> None
        then (fst (web_search_duckduckgo w q), snd (web_search_duckduckgo w q))
        else if fst (web_search_brave w q) \<noteq> None
        then (fst (web_search_brave w q), snd (web_search_duckduckgo w q) @ snd (web_search_brave w q))
        else (fst (web_search_serpapi w q),
              snd (web_search_duckduckgo w q) @ snd (web_search_brave w q) @ snd (web_search_serpapi w q))))"
  using duckduckgo_truthy [of w q] brave_truthy [of w q] serpapi_truthy [of w q]
  by (auto simp: web_search_def Let_def split: prod.splits)

lemma can_print_ascii: "can_print b (lit s @ q) \<longleftrightarrow> can_print b q"
proof -
  have "(of_char x :: nat) < 256" for x
    using of_char_mod_256 [of x, where ?'a = nat] by (metis mod_less_divisor zero_less_numeral)
  then have "\<forall>c\<in>set (lit s). c < 256"
    by (auto simp: lit_def)
  then show ?thesis by (fastforce simp: can_print_def)
qed

lemmas search_eval = web_search_duckduckgo_def web_search_brave_def web_search_serpapi_def
  getenv_stripped_def brave_items_def serpapi_items_def format_result_def join_results_def
  render_entry_def py_str_def py_strip_def py_isspace_def Let_def

lemma keyed_brave: "web_search_brave keyed q = (Some hit_text, [Brave])"
  by (simp add: search_eval keyed_def offline_def brave_hit_def hit_text_def lit_def)

lemma keyed_serpapi: "web_search_serpapi keyed q = (Some hit_text, [SerpAPI])"
  by (simp add: search_eval keyed_def offline_def serpapi_hit_def hit_text_def lit_def)

lemma keyed_duckduckgo: "web_search_duckduckgo keyed q = (None, [])"
  by (simp add: search_eval keyed_def offline_def)

lemma ddg_empty_brave: "web_search_brave ddg_empty q = (Some hit_text, [Brave])"
  by (simp add: search_eval ddg_empty_def keyed_def offline_def brave_hit_def hit_text_def lit_def)

lemma brave_down_serpapi: "web_search_serpapi brave_down q = (Some hit_text, [SerpAPI])"
  by (simp add: search_eval brave_down_def keyed_def offline_def serpapi_hit_def hit_text_def lit_def)

lemma brave_down_duckduckgo: "web_search_duckduckgo brave_down q = (None, [])"
  by (simp add: search_eval brave_down_def keyed_def offline_def)

lemma brave_down_key: "getenv_stripped brave_down ''BRAVE_API_KEY'' = lit ''tok1''"
  by (simp add: brave_down_def keyed_def offline_def getenv_stripped_def py_strip_def
      py_isspace_def lit_def)

lemma can_print_acme_news: "can_print b (lit ''Searching web for: '' @ lit ''acme news'')"
  by (simp add: can_print_def lit_def)


text \<open>
  Claim C1, as the code has it.  For a query whose log line can be printed, the
  aggregator calls the backends in the order DuckDuckGo, Brave, SerpAPI, a keyed one
  only when its token is set.  The first provider that answers wins, and no later
  backend is called.  A provider that is skipped or fails hands over to the next: the
  keyless one when its library is missing, raises, or yields a result that is no
  dictionary; a keyed one when its token is empty, its request raises, the status is
  not 200, the body cannot be decoded, or the body does not have the shape the provider
  reads.  A provider answers also when its result set is empty: its output is then the
  text \<open>No search results found.\<close>, and it wins all the same.
\<close>

theorem web_search_first_answer_wins:
  assumes "can_print (stdout_surrogateescape w) (lit ''Searching web for: '' @ q)"
  shows
   "(\<exists>result calls. web_search w q = Inr (result, calls) \<and>
        subseq calls [DuckDuckGo, Brave, SerpAPI] \<and>
        (Brave \<in> set calls \<longrightarrow> getenv_stripped w ''BRAVE_API_KEY'' \<noteq> []) \<and>
        (SerpAPI \<in> set calls \<longrightarrow> getenv_stripped w ''SERPAPI_KEY'' \<noteq> [])) \<and>
    (\<forall>s. fst (web_search_duckduckgo w q) = Some s \<longrightarrow>
        web_search w q = Inr (Some s, [DuckDuckGo])) \<and>
    (\<forall>s. fst (web_search_duckduckgo w q) = None \<and> fst (web_search_brave w q) = Some s \<longrightarrow>
        web_search w q = Inr (Some s, snd (web_search_duckduckgo w q) @ [Brave])) \<and>
    (fst (web_search_duckduckgo w q) = None \<and> fst (web_search_brave w q) = None \<longrightarrow>
        web_search w q =
          Inr (fst (web_search_serpapi w q),
               snd (web_search_duckduckgo w q) @ snd (web_search_brave w q) @
               snd (web_search_serpapi w q))) \<and>
    (fst (web_search_duckduckgo w q) = None \<longleftrightarrow>
       \<not> ddgs_installed w \<or> ddgs_text w q 3 = DdgRaises \<or>
       (\<exists>rs. ddgs_text w q 3 = DdgResults rs \<and> (\<exists>r\<in>set rs. \<forall>kvs. r \<noteq> PDict kvs))) \<and>
    (fst (web_search_brave w q) = None \<longleftrightarrow>
       getenv_stripped w ''BRAVE_API_KEY'' = [] \<or>
       brave_get w q (getenv_stripped w ''BRAVE_API_KEY'') = GetRaises \<or>
       (\<exists>status_code body.
          brave_get w q (getenv_stripped w ''BRAVE_API_KEY'') = GetResponse status_code body \<and>
          (status_code \<noteq> 200 \<or> (\<exists>c m. body = JsonRaises c m) \<or>
           (\<exists>data. body = Json data \<and>
              ((\<exists>e. brave_items data = Inl e) \<or>
               (\<exists>rs. brave_items data = Inr rs \<and> (\<exists>r\<in>set rs. \<forall>kvs. r \<noteq> PDict kvs))))))) \<and>
    (fst (web_search_serpapi w q) = None \<longleftrightarrow>
       getenv_stripped w ''SERPAPI_KEY'' = [] \<or>
       serpapi_get w q (getenv_stripped w ''SERPAPI_KEY'') = GetRaises \<or>
       (\<exists>status_code body.
          serpapi_get w q (getenv_stripped w ''SERPAPI_KEY'') = GetResponse status_code body \<and>
          (status_code \<noteq> 200 \<or> (\<exists>c m. body = JsonRaises c m) \<or>
           (\<exists>data. body = Json data \<and>
              ((\<exists>e. serpapi_items data = Inl e) \<or>
               (\<exists>rs. serpapi_items data = Inr rs \<and> (\<exists>r\<in>set rs. \<forall>kvs. r \<noteq> PDict kvs))))))) \<and>
    (ddgs_installed w \<and> ddgs_text w q 3 = DdgResults [] \<longrightarrow>
        web_search w q = Inr (Some (lit ''No search results found.''), [DuckDuckGo]))"
proof -
  note chain = web_search_chain [of w q]
  have d: "fst (web_search_duckduckgo w q) \<noteq> None \<Longrightarrow> ddgs_installed w"
    by (auto simp: web_search_duckduckgo_def split: if_splits)
  have b: "fst (web_search_brave w q) \<noteq> None \<Longrightarrow> getenv_stripped w ''BRAVE_API_KEY'' \<noteq> []"
    by (auto simp: web_search_brave_def Let_def split: if_splits)
  have e: "ddgs_installed w \<and> ddgs_text w q 3 = DdgResults [] \<Longrightarrow>
      web_search_duckduckgo w q = (Some (lit ''No search results found.''), [DuckDuckGo])"
    by (simp add: web_search_duckduckgo_def join_results_def)
  have 1: "\<exists>result calls. web_search w q = Inr (result, calls) \<and>
        subseq calls [DuckDuckGo, Brave, SerpAPI] \<and>
        (Brave \<in> set calls \<longrightarrow> getenv_stripped w ''BRAVE_API_KEY'' \<noteq> []) \<and>
        (SerpAPI \<in> set calls \<longrightarrow> getenv_stripped w ''SERPAPI_KEY'' \<noteq> [])"
    using assms by (auto simp: chain duckduckgo_calls brave_calls serpapi_calls)
  have 2: "\<forall>s. fst (web_search_duckduckgo w q) = Some s \<longrightarrow>
        web_search w q = Inr (Some s, [DuckDuckGo])"
    using assms d by (auto simp: chain duckduckgo_calls)
  have 3: "\<forall>s. fst (web_search_duckduckgo w q) = None \<and> fst (web_search_brave w q) = Some s \<longrightarrow>
        web_search w q = Inr (Some s, snd (web_search_duckduckgo w q) @ [Brave])"
    using assms b by (auto simp: chain brave_calls)
  have 4: "fst (web_search_duckduckgo w q) = None \<and> fst (web_search_brave w q) = None \<longrightarrow>
        web_search w q =
          Inr (fst (web_search_serpapi w q),
               snd (web_search_duckduckgo w q) @ snd (web_search_brave w q) @
               snd (web_search_serpapi w q))"
    using assms by (simp add: chain)
  have 8: "ddgs_installed w \<and> ddgs_text w q 3 = DdgResults [] \<longrightarrow>
        web_search w q = Inr (Some (lit ''No search results found.''), [DuckDuckGo])"
    using assms e by (auto simp: chain)
  from 1 2 3 4 duckduckgo_None_iff [of w q] brave_None_iff [of w q] serpapi_None_iff [of w q] 8
  show ?thesis by (intro conjI)
qed

theorem web_search_first_answer_wins_witness:
  "can_print (stdout_surrogateescape brave_down) (lit ''Searching web for: '' @ lit ''acme news'') \<and>
   brave_get brave_down (lit ''acme news'') (lit ''tok1'') = GetResponse 500 (JsonRaises OtherExc []) \<and>
   web_search brave_down (lit ''acme news'') = Inr (Some hit_text, [Brave, SerpAPI])"
proof -
  let ?q = "lit ''acme news''"
  have p: "can_print (stdout_surrogateescape brave_down) (lit ''Searching web for: '' @ ?q)"
    by (rule can_print_acme_news)
  have g: "brave_get brave_down ?q (lit ''tok1'') = GetResponse 500 (JsonRaises OtherExc [])"
    by (simp add: brave_down_def)
  note t = web_search_first_answer_wins [OF p]
  have d: "fst (web_search_duckduckgo brave_down ?q) = None"
    by (simp add: brave_down_duckduckgo)
  from t g have b: "fst (web_search_brave brave_down ?q) = None"
    by (simp add: brave_down_key)
  from t d b have "web_search brave_down ?q =
          Inr (fst (web_search_serpapi brave_down ?q),
               snd (web_search_duckduckgo brave_down ?q) @ snd (web_search_brave brave_down ?q) @
               snd (web_search_serpapi brave_down ?q))"
    by blast
  then have "web_search brave_down ?q = Inr (Some hit_text, [Brave, SerpAPI])"
    by (simp add: brave_down_serpapi brave_down_duckduckgo brave_calls brave_down_key lit_def)
  with p g show ?thesis by simp
qed


text \<open>
  Claim C1 as stated does not hold: the keyless provider returns an empty result set,
  the first keyed provider would return one entry, and the aggregator returns the
  keyless provider's \<open>No search results found.\<close> without calling the keyed provider.
\<close>

theorem empty_result_set_wins_counterexample:
  "ddgs_text ddg_empty (lit ''acme news'') 3 = DdgResults [] \<and>
   web_search_brave ddg_empty (lit ''acme news'') = (Some hit_text, [Brave]) \<and>
   web_search ddg_empty (lit ''acme news'') =
     Inr (Some (lit ''No search results found.''), [DuckDuckGo])"
proof -
  have "web_search_duckduckgo ddg_empty (lit ''acme news'') =
          (Some (lit ''No search results found.''), [DuckDuckGo])"
    by (simp add: search_eval ddg_empty_def lit_def)
  then have "web_search ddg_empty (lit ''acme news'') =
          Inr (Some (lit ''No search results found.''), [DuckDuckGo])"
    using can_print_acme_news by (simp add: web_search_chain)
  moreover have "ddgs_text ddg_empty (lit ''acme news'') 3 = DdgResults []"
    by (simp add: ddg_empty_def)
  ultimately show ?thesis by (simp add: ddg_empty_brave)
qed


subsection \<open>Absence\<close>

text \<open>
  For a query whose log line can be printed, the aggregator returns \<open>None\<close> exactly
  when each of the three providers is skipped or fails, and every string it returns is
  non-empty.
\<close>

lemma web_search_absence:
  assumes "can_print (stdout_surrogateescape w) (lit ''Searching web for: '' @ q)"
  shows "((\<exists>calls. web_search w q = Inr (None, calls)) \<longleftrightarrow>
            fst (web_search_duckduckgo w q) = None \<and> fst (web_search_brave w q) = None \<and>
            fst (web_search_serpapi w q) = None) \<and>
         (\<forall>s calls. web_search w q = Inr (Some s, calls) \<longrightarrow> s \<noteq> [])"
proof
  show "(\<exists>calls. web_search w q = Inr (None, calls)) \<longleftrightarrow>
            fst (web_search_duckduckgo w q) = None \<and> fst (web_search_brave w q) = None \<and>
            fst (web_search_serpapi w q) = None"
    using assms by (auto simp: web_search_chain)
  show "\<forall>s calls. web_search w q = Inr (Some s, calls) \<longrightarrow> s \<noteq> []"
    using assms duckduckgo_nonempty [of w q] brave_nonempty [of w q] serpapi_nonempty [of w q]
    by (auto simp: web_search_chain split: if_splits)
qed


text \<open>
  Claim C2.  \<open>web_search\<close> prints the query before it tries any provider, outside every
  \<open>try\<close>.  For the query \<open>surrogate_query\<close>, which holds a lone surrogate, and with all
  three providers unavailable, the aggregator does not return the absence signal
  \<open>None\<close>: it raises \<open>UnicodeEncodeError\<close>.
\<close>

theorem unprintable_query_raises:
  "fst (web_search_duckduckgo offline surrogate_query) = None \<and>
   fst (web_search_brave offline surrogate_query) = None \<and>
   fst (web_search_serpapi offline surrogate_query) = None \<and>
   web_search offline surrogate_query = Inl UnicodeEncodeError"
  by (simp add: web_search_def search_eval offline_def surrogate_query_def can_print_def)


subsection \<open>The entries of a provider\<close>

text \<open>
  Every provider renders a result dictionary in the layout of lemma
  \<open>format_result_dict\<close>, from the title, the snippet and the link under the provider's
  own field names.  The keyed providers slice their result list to 3 entries.
\<close>

lemma sliced_items_length:
  "py_slice 3 rs = Inr rs3 \<Longrightarrow> py_iter rs3 = Inr items \<Longrightarrow> length items \<le> 3"
  by (cases rs) auto

lemma brave_items_length: "brave_items data = Inr rs \<Longrightarrow> length rs \<le> 3"
  by (auto simp: brave_items_def split: sum.splits dest: sliced_items_length)

lemma serpapi_items_length: "serpapi_items data = Inr rs \<Longrightarrow> length rs \<le> 3"
  by (auto simp: serpapi_items_def split: sum.splits dest: sliced_items_length)




section \<open>Properties of the Answer Orchestrator\<close>

subsection \<open>The decision to search\<close>

lemma contains_iff_sublist: "contains s t \<longleftrightarrow> sublist t s"
  by (induction s) (simp_all add: sublist_Cons_right)

lemma should_search_iff:
  "should_search message \<longleftrightarrow> (\<exists>term\<in>set search_terms. sublist (lit term) (py_lower message))"
  by (simp add: should_search_def list_ex_iff contains_iff_sublist)

lemma should_search_latest: "should_search latest_question"
  by (simp add: should_search_def search_terms_def latest_question_def py_lower_def
      lower_char_def lit_def)

lemma should_search_status: "\<not> should_search status_question"
  by (simp add: should_search_def search_terms_def status_question_def py_lower_def
      lower_char_def lit_def)

lemma session0_key: "result_truthy (claude_api_key session0)"
  by (simp add: session0_def result_truthy_def lit_def)

lemma searched_ask_claude:
  "result_truthy (claude_api_key self) \<Longrightarrow>
     searched (ask_claude w self message) =
       (if should_search message then Some (web_search w message) else None)"
  by (simp add: ask_claude_def Let_def split: option.splits sum.splits prod.splits)


text \<open>
  Claim C7, as the code has it.  When the model's API key is configured, \<open>ask_claude\<close>
  calls the aggregator if and only if the lowercased question contains one of the
  trigger substrings, and then with the question as the query; without a key it returns
  \<open>Claude API not configured\<close> and never searches.  The question
  \<open>What's the latest on Acme?\<close> holds a trigger and \<open>What's Acme's status?\<close> holds none.
\<close>

theorem ask_claude_search_decision:
  "(result_truthy (claude_api_key self) \<longrightarrow>
      (searched (ask_claude w self message) \<noteq> None \<longleftrightarrow>
         (\<exists>term\<in>set search_terms. sublist (lit term) (py_lower message))) \<and>
      (searched (ask_claude w self message) \<noteq> None \<longrightarrow>
         searched (ask_claude w self message) = Some (web_search w message))) \<and>
   (\<not> result_truthy (claude_api_key self) \<longrightarrow>
      searched (ask_claude w self message) = None \<and>
      answer (ask_claude w self message) = Inr (PStr (lit ''Claude API not configured''))) \<and>
   should_search latest_question \<and> \<not> should_search status_question"
proof -
  have 1: "result_truthy (claude_api_key self) \<longrightarrow>
      (searched (ask_claude w self message) \<noteq> None \<longleftrightarrow>
         (\<exists>term\<in>set search_terms. sublist (lit term) (py_lower message))) \<and>
      (searched (ask_claude w self message) \<noteq> None \<longrightarrow>
         searched (ask_claude w self message) = Some (web_search w message))"
    by (simp add: searched_ask_claude should_search_iff)
  have 2: "\<not> result_truthy (claude_api_key self) \<longrightarrow>
      searched (ask_claude w self message) = None \<and>
      answer (ask_claude w self message) = Inr (PStr (lit ''Claude API not configured''))"
    by (simp add: ask_claude_def)
  from 1 2 should_search_latest should_search_status show ?thesis by (intro conjI)
qed

theorem ask_claude_search_decision_witness:
  "result_truthy (claude_api_key session0) \<and>
   searched (ask_claude all_hit session0 latest_question) = Some (web_search all_hit latest_question) \<and>
   searched (ask_claude all_hit session0 status_question) = None"
proof -
  note k = session0_key
  have a: "\<exists>term\<in>set search_terms. sublist (lit term) (py_lower latest_question)"
    using should_search_latest by (simp add: should_search_iff)
  have b: "\<not> (\<exists>term\<in>set search_terms. sublist (lit term) (py_lower status_question))"
    using should_search_status by (simp add: should_search_iff)
  from ask_claude_search_decision [of session0 all_hit latest_question] k a
  have 1: "searched (ask_claude all_hit session0 latest_question) = Some (web_search all_hit latest_question)"
    by blast
  from ask_claude_search_decision [of session0 all_hit status_question] k b
  have 2: "searched (ask_claude all_hit session0 status_question) = None"
    by blast
  from k 1 2 show ?thesis by simp
qed


text \<open>
  Claim C7 as stated does not hold in a session without API key: the question holds the
  trigger \<open>latest\<close> and no search is made.
\<close>

theorem no_key_no_search_counterexample:
  "should_search latest_question \<and>
   searched (ask_claude all_hit (session0\<lparr>claude_api_key := None\<rparr>) latest_question) = None"
  using should_search_latest by (simp add: ask_claude_def result_truthy_def)


subsection \<open>Failures of the model call\<close>

text \<open>
  The strings of the three \<open>except\<close> clauses, of the empty response and of the API
  error differ from one another whatever the messages are, and none is empty.
\<close>

lemma handle_exception_distinct:
  "handle_exception TimeoutExc m \<noteq> handle_exception RequestExc m'"
  "handle_exception TimeoutExc m \<noteq> handle_exception OtherExc m'"
  "handle_exception RequestExc m \<noteq> handle_exception OtherExc m'"
  "handle_exception c m \<noteq> lit ''Claude returned empty response''"
  "handle_exception c m \<noteq> lit ''Claude API error ('' @ x"
  "lit ''Claude returned empty response'' \<noteq> lit ''Claude API error ('' @ x"
  "handle_exception c m \<noteq> []"
  by (cases c; simp add: lit_def)+


text \<open>
  Claim C6.  A 200 response whose body cannot be decoded makes \<open>response.json()\<close> raise
  the HTTP library's own decoding error, which is a \<open>RequestException\<close>: \<open>ask_claude\<close>
  reports it with the string of the network-error category, as it reports a refused
  connection, and not with a string of its own category.
\<close>

theorem undecodable_body_reported_as_network_error:
  "answer (ask_claude not_json session0 (lit ''hello'')) =
     Inr (PStr (lit ''Network error: Expecting value: line 1 column 1 (char 0)'')) \<and>
   answer (ask_claude
       (offline\<lparr>claude_post := (\<lambda>api_key system message.
           PostRaises RequestExc (lit ''Connection refused''))\<rparr>) session0 (lit ''hello'')) =
     Inr (PStr (lit ''Network error: Connection refused''))"
proof -
  have n: "\<not> should_search (lit ''hello'')"
    by (simp add: should_search_def search_terms_def py_lower_def lower_char_def lit_def)
  have c: "database_context session0 \<noteq> []"
    by (simp add: session0_def lit_def)
  show ?thesis
    using n c session0_key
    by (simp add: ask_claude_def Let_def not_json_def offline_def lit_def)
qed


text \<open>
  The search is made before the \<open>try\<close> of the model call: an exception of \<open>web_search\<close>
  leaves \<open>ask_claude\<close> as it is.
\<close>

lemma ask_claude_unprintable_query:
  "should_search surrogate_query \<and>
   answer (ask_claude offline session0 surrogate_query) = Inl UnicodeEncodeError"
proof -
  have s: "should_search surrogate_query"
    by (simp add: should_search_def search_terms_def surrogate_query_def py_lower_def
        lower_char_def lit_def)
  have c: "database_context session0 \<noteq> []"
    by (simp add: session0_def lit_def)
  have r: "web_search offline surrogate_query = Inl UnicodeEncodeError"
    by (simp add: web_search_def offline_def surrogate_query_def can_print_def)
  show ?thesis
    using s c r session0_key by (simp add: ask_claude_def Let_def)
qed

end
